theory Spec2Isabelle
  imports Complex_Main
begin

section \<open>Python values and failures\<close>

text \<open>
  The two scripts are Python. Integers are unbounded (\<open>int\<close>), a raised exception is a
  value of \<open>py_error\<close>, and a computation that can raise returns \<open>py_error + 'a\<close>
  with \<open>Inl\<close> for the exception. Grid cells and axis values are floats; the scripts only
  compare them with the missing-data constant and print them, so they are modelled as
  \<open>real\<close> and the float-to-text conversion of \<open>str.format\<close> is a parameter.
\<close>

datatype py_error =
    ValueError string
  | IndexError
  | KeyError string
  | OSError string
  | FileExistsError string
  | ExternalError string

text \<open>Sequencing of computations that can raise: the first exception is the result.\<close>

definition bind_err :: "py_error + 'a \<Rightarrow> ('a \<Rightarrow> py_error + 'b) \<Rightarrow> py_error + 'b" where
  "bind_err r k = (case r of Inl e \<Rightarrow> Inl e | Inr a \<Rightarrow> k a)"

text \<open>Builtin \<open>min\<close> and \<open>max\<close> over a sequence: an empty one raises ValueError.\<close>

fun py_min :: "int list \<Rightarrow> py_error + int" where
  "py_min [] = Inl (ValueError ''min() arg is an empty sequence'')"
| "py_min (x # xs) = Inr (fold min xs x)"

fun py_max :: "int list \<Rightarrow> py_error + int" where
  "py_max [] = Inl (ValueError ''max() arg is an empty sequence'')"
| "py_max (x # xs) = Inr (fold max xs x)"

section \<open>Two-dimensional arrays\<close>

text \<open>
  A 2-D numpy array is a list of rows. \<open>is_array2 ny nx f\<close> says that \<open>f\<close> has shape
  \<open>(ny, nx)\<close>. (With no row the column count cannot be observed by this program:
  every index is out of bounds and \<open>np.where\<close> finds nothing.)
\<close>

type_synonym 'a array2 = "'a list list"

definition is_array2 :: "nat \<Rightarrow> nat \<Rightarrow> 'a array2 \<Rightarrow> bool" where
  "is_array2 ny nx f \<longleftrightarrow> length f = ny \<and> list_all (\<lambda>r. length r = nx) f"

text \<open>
  \<open>np.where(f != s)\<close>: the index pairs of the cells that differ from \<open>s\<close>, in row-major
  order. The source unpacks them into the row indices \<open>I\<close> and the column indices \<open>J\<close>.
\<close>

definition np_where_ne :: "'a array2 \<Rightarrow> 'a \<Rightarrow> (nat \<times> nat) list" where
  "np_where_ne f s =
     concat (map (\<lambda>i. map (\<lambda>j. (i, j)) (filter (\<lambda>j. f ! i ! j \<noteq> s) [0..<length (f ! i)]))
                 [0..<length f])"

section \<open>Bounding box of the measured cells (make\_dems.py, lines 56-58)\<close>

record bbox =
  imin :: int
  imax :: int
  jmin :: int
  jmax :: int

text \<open>
  The source fixes the margin to 2 and the missing-data value to \<open>-2.0e+9\<close>. Here both
  are arguments, so that the facts about detection can be stated for every margin and
  value; the program itself only ever runs \<open>find_measured\<close> below, the instance with the
  source's two constants. The evaluation order is the source's: \<open>min(I)\<close>, \<open>max(I)\<close>,
  \<open>min(J)\<close>, \<open>max(J)\<close>.
\<close>

definition detect :: "int \<Rightarrow> 'a \<Rightarrow> 'a array2 \<Rightarrow> py_error + bbox" where
  "detect margin s f =
     (let IJ = np_where_ne f s;
          I = map (\<lambda>p. int (fst p)) IJ;
          J = map (\<lambda>p. int (snd p)) IJ
      in bind_err (py_min I) (\<lambda>i0.
         bind_err (py_max I) (\<lambda>i1.
         bind_err (py_min J) (\<lambda>j0.
         bind_err (py_max J) (\<lambda>j1.
           Inr \<lparr>imin = i0 - margin, imax = i1 + margin,
                jmin = j0 - margin, jmax = j1 + margin\<rparr>)))))"

definition missing :: real where
  "missing = - 2000000000"

definition find_measured :: "real array2 \<Rightarrow> py_error + bbox" where
  "find_measured vx = detect 2 missing vx"


section \<open>Slicing and cropping (make\_dems.py, lines 61-69)\<close>

text \<open>
  A slice bound \<open>k\<close> on a sequence of length \<open>n\<close>: a negative bound counts from the end,
  and every bound is clamped into \<open>0..n\<close>. Slicing never raises.
\<close>

definition slice_bound :: "nat \<Rightarrow> int \<Rightarrow> nat" where
  "slice_bound n k = (if k < 0 then nat (max 0 (int n + k)) else min (nat k) n)"

definition py_slice :: "int \<Rightarrow> int \<Rightarrow> 'a list \<Rightarrow> 'a list" where
  "py_slice lo hi xs =
     (let a = slice_bound (length xs) lo; b = slice_bound (length xs) hi
      in take (b - a) (drop a xs))"

text \<open>\<open>f[imin: imax+1, jmin: jmax+1]\<close>\<close>

definition crop_field :: "bbox \<Rightarrow> 'a array2 \<Rightarrow> 'a array2" where
  "crop_field b f =
     map (py_slice (jmin b) (jmax b + 1)) (py_slice (imin b) (imax b + 1) f)"

text \<open>
  The axes and the four fields of one glacier: \<open>x, y, vx\<close> come from the \<open>.vx\<close> file,
  \<open>vy, ex, ey\<close> from the other three, whose axes the source discards.
\<close>

record velocity =
  x_axis :: "real list"
  y_axis :: "real list"
  vx :: "real array2"
  vy :: "real array2"
  ex :: "real array2"
  ey :: "real array2"

definition crop :: "bbox \<Rightarrow> velocity \<Rightarrow> velocity" where
  "crop b g =
     \<lparr>x_axis = py_slice (jmin b) (jmax b + 1) (x_axis g),
      y_axis = py_slice (imin b) (imax b + 1) (y_axis g),
      vx = crop_field b (vx g),
      vy = crop_field b (vy g),
      ex = crop_field b (ex g),
      ey = crop_field b (ey g)\<rparr>"

definition box_nx :: "bbox \<Rightarrow> int" where
  "box_nx b = jmax b - jmin b + 1"

definition box_ny :: "bbox \<Rightarrow> int" where
  "box_ny b = imax b - imin b + 1"

section \<open>Text of integers\<close>

text \<open>\<open>'{0}'.format(n)\<close> for an integer: its decimal digits, with a sign when negative.\<close>

definition digit_char :: "nat \<Rightarrow> char" where
  "digit_char d = ''0123456789'' ! d"

fun digits :: "nat \<Rightarrow> string" where
  "digits n = (if n < 10 then [digit_char n] else digits (n div 10) @ [digit_char (n mod 10)])"

definition str_int :: "int \<Rightarrow> string" where
  "str_int k = (if k < 0 then CHR ''-'' # digits (nat (- k)) else digits (nat k))"

section \<open>Files and output\<close>

text \<open>
  The working directory is a map from relative paths to directories and files, and the
  lines printed so far are kept beside it. A step of the program takes the world and
  returns either an exception or a value, with the world as the step left it.
\<close>

datatype node = Dir | File string

record world =
  files :: "string \<rightharpoonup> node"
  stdout :: "string list"

type_synonym 'a io = "world \<Rightarrow> (py_error + 'a) \<times> world"

definition ret :: "'a \<Rightarrow> 'a io" where
  "ret a w = (Inr a, w)"

definition lift :: "py_error + 'a \<Rightarrow> 'a io" where
  "lift r w = (r, w)"

definition thn :: "'a io \<Rightarrow> ('a \<Rightarrow> 'b io) \<Rightarrow> 'b io" where
  "thn m k w = (case m w of (Inl e, w') \<Rightarrow> (Inl e, w') | (Inr a, w') \<Rightarrow> k a w')"

text \<open>A \<open>for\<close> loop over a sequence: an exception in the body ends it.\<close>

fun for_each :: "('k \<Rightarrow> unit io) \<Rightarrow> 'k list \<Rightarrow> unit io" where
  "for_each body [] w = (Inr (), w)"
| "for_each body (k # ks) w =
     (case body k w of (Inl e, w') \<Rightarrow> (Inl e, w') | (Inr u, w') \<Rightarrow> for_each body ks w')"

definition path_exists :: "string \<Rightarrow> world \<Rightarrow> bool" where
  "path_exists p w \<longleftrightarrow> files w p \<noteq> None"

text \<open>The directory part of a path: what stands before its last slash.\<close>

definition dirname :: "string \<Rightarrow> string" where
  "dirname p =
     (if CHR ''/'' \<in> set p then rev (tl (dropWhile (\<lambda>c. c \<noteq> CHR ''/'') (rev p))) else [])"

text \<open>The last component of a path: what stands after its last slash.\<close>

definition basename :: "string \<Rightarrow> string" where
  "basename p = rev (takeWhile (\<lambda>c. c \<noteq> CHR ''/'') (rev p))"

text \<open>
  \<open>os.makedirs(p)\<close> for a path of one component. A path that holds a null character
  raises ValueError; the empty path and a path that exists raise an OSError.
\<close>

definition makedirs :: "string \<Rightarrow> unit io" where
  "makedirs p w =
     (if CHR 0x00 \<in> set p then (Inl (ValueError ''embedded null byte''), w)
      else if p = [] then (Inl (OSError p), w)
      else if path_exists p w then (Inl (FileExistsError p), w)
      else (Inr (), w\<lparr>files := (files w)(p \<mapsto> Dir)\<rparr>))"

text \<open>
  \<open>open(p, 'w')\<close> creates the file or truncates it. It raises ValueError when \<open>p\<close> holds
  a null character, and an OSError (FileNotFoundError, IsADirectoryError or
  NotADirectoryError) when \<open>p\<close> names no file (it is empty, or its last component is
  empty, \<open>.\<close> or \<open>..\<close>), when \<open>p\<close> is a directory, or when the directory part of \<open>p\<close> is
  not a directory.
\<close>

definition py_open_w :: "string \<Rightarrow> unit io" where
  "py_open_w p w =
     (if CHR 0x00 \<in> set p then (Inl (ValueError ''embedded null byte''), w)
      else if basename p \<in> set [[], ''.'', ''..''] then (Inl (OSError p), w)
      else if files w p = Some Dir then (Inl (OSError p), w)
      else if dirname p \<noteq> [] \<and> files w (dirname p) \<noteq> Some Dir then (Inl (OSError p), w)
      else (Inr (), w\<lparr>files := (files w)(p \<mapsto> File [])\<rparr>))"

definition content :: "world \<Rightarrow> string \<Rightarrow> string" where
  "content w p = (case files w p of Some (File c) \<Rightarrow> c | _ \<Rightarrow> [])"

text \<open>\<open>fid.write(s)\<close> on the file opened at \<open>p\<close>: the text is appended.\<close>

definition py_write :: "string \<Rightarrow> string \<Rightarrow> unit io" where
  "py_write p s w = (Inr (), w\<lparr>files := (files w)(p \<mapsto> File (content w p @ s))\<rparr>)"

definition py_print :: "string \<Rightarrow> unit io" where
  "py_print s w = (Inr (), w\<lparr>stdout := stdout w @ [s]\<rparr>)"

section \<open>Writing the point lists (make\_dems.py, lines 72-88)\<close>

text \<open>Indexing with a non-negative index: out of bounds raises IndexError.\<close>

definition index1 :: "'a list \<Rightarrow> nat \<Rightarrow> py_error + 'a" where
  "index1 xs k = (if k < length xs then Inr (xs ! k) else Inl IndexError)"

definition index2 :: "'a array2 \<Rightarrow> nat \<Rightarrow> nat \<Rightarrow> py_error + 'a" where
  "index2 f i j =
     (if i < length f \<and> j < length (f ! i) then Inr (f ! i ! j) else Inl IndexError)"

text \<open>
  \<open>'{0} {1} {2}\n'.format(x[j], y[i], f[i,j])\<close>, where \<open>fmt\<close> is the text that
  \<open>format\<close> gives a float.
\<close>

definition fmt_point ::
  "(real \<Rightarrow> string) \<Rightarrow> real list \<Rightarrow> real list \<Rightarrow> real array2 \<Rightarrow> nat \<Rightarrow> nat \<Rightarrow> py_error + string"
where
  "fmt_point fmt xa ya f j i =
     bind_err (index1 xa j) (\<lambda>a.
     bind_err (index1 ya i) (\<lambda>b.
     bind_err (index2 f i j) (\<lambda>c.
       Inr (fmt a @ '' '' @ fmt b @ '' '' @ fmt c @ ''\<newline>''))))"

definition write_point ::
  "(real \<Rightarrow> string) \<Rightarrow> string \<Rightarrow> real list \<Rightarrow> real list \<Rightarrow> real array2 \<Rightarrow> nat \<Rightarrow> nat \<Rightarrow> unit io"
where
  "write_point fmt p xa ya f j i = thn (lift (fmt_point fmt xa ya f j i)) (py_write p)"

text \<open>The body of the two loops: one line to each of the four files.\<close>

definition write_points :: "(real \<Rightarrow> string) \<Rightarrow> string \<Rightarrow> velocity \<Rightarrow> nat \<Rightarrow> nat \<Rightarrow> unit io" where
  "write_points fmt glacier c j i =
     thn (write_point fmt (glacier @ ''/UDEM.xy'') (x_axis c) (y_axis c) (vx c) j i) (\<lambda>_.
     thn (write_point fmt (glacier @ ''/VDEM.xy'') (x_axis c) (y_axis c) (vy c) j i) (\<lambda>_.
     thn (write_point fmt (glacier @ ''/EUDEM.xy'') (x_axis c) (y_axis c) (ex c) j i) (\<lambda>_.
          write_point fmt (glacier @ ''/EVDEM.xy'') (x_axis c) (y_axis c) (ey c) j i)))"

definition write_velocity ::
  "(real \<Rightarrow> string) \<Rightarrow> string \<Rightarrow> velocity \<Rightarrow> int \<Rightarrow> int \<Rightarrow> unit io"
where
  "write_velocity fmt glacier c nx ny =
     thn (py_open_w (glacier @ ''/UDEM.xy'')) (\<lambda>_.
     thn (py_open_w (glacier @ ''/VDEM.xy'')) (\<lambda>_.
     thn (py_open_w (glacier @ ''/EUDEM.xy'')) (\<lambda>_.
     thn (py_open_w (glacier @ ''/EVDEM.xy'')) (\<lambda>_.
     thn (for_each (\<lambda>p. py_write p (str_int nx @ ''\<newline>'' @ str_int ny @ ''\<newline>''))
            [glacier @ ''/UDEM.xy'', glacier @ ''/VDEM.xy'',
             glacier @ ''/EUDEM.xy'', glacier @ ''/EVDEM.xy'']) (\<lambda>_.
       for_each (\<lambda>j. for_each (\<lambda>i. write_points fmt glacier c j i) [0..<nat ny])
         [0..<nat nx])))))"

section \<open>One glacier (make\_dems.py, lines 38-93)\<close>

definition velocity_data :: "(string \<times> string) list" where
  "velocity_data =
     [(''helheim'', ''TSX_E66.50N_27Jan09_07Feb09''),
      (''kangerd'', ''TSX_E68.80N_28Jan09_08Feb09''),
      (''jakobshavn'', ''mosaicOffsets'')]"

definition lookup :: "(string \<times> 'v) list \<Rightarrow> string \<Rightarrow> py_error + 'v" where
  "lookup d k = (case map_of d k of None \<Rightarrow> Inl (KeyError k) | Some v \<Rightarrow> Inr v)"

text \<open>
  \<open>read_geodat\<close> is not part of the repository: it is the argument \<open>rd\<close>, which gives
  for a file name either an exception or the two axes and the field.
\<close>

type_synonym reader = "string \<Rightarrow> py_error + (real list \<times> real list \<times> real array2)"

definition read_velocity :: "reader \<Rightarrow> string \<Rightarrow> py_error + velocity" where
  "read_velocity rd glacier =
     bind_err (lookup velocity_data glacier) (\<lambda>name.
     bind_err (rd (''../data/'' @ glacier @ ''/'' @ name @ ''.vx'')) (\<lambda>(x, y, a).
     bind_err (rd (''../data/'' @ glacier @ ''/'' @ name @ ''.vy'')) (\<lambda>(_, _, b).
     bind_err (rd (''../data/'' @ glacier @ ''/'' @ name @ ''.ex'')) (\<lambda>(_, _, c).
     bind_err (rd (''../data/'' @ glacier @ ''/'' @ name @ ''.ey'')) (\<lambda>(_, _, d).
       Inr \<lparr>x_axis = x, y_axis = y, vx = a, vy = b, ex = c, ey = d\<rparr>)))))"

text \<open>Lines 55-69: find the measured cells and crop the axes and the fields to their box.\<close>

definition crop_measured :: "velocity \<Rightarrow> py_error + (bbox \<times> velocity)" where
  "crop_measured g = bind_err (find_measured (vx g)) (\<lambda>b. Inr (b, crop b g))"

text \<open>Lines 55-88: find the measured cells, crop, write.\<close>

definition process_velocity :: "(real \<Rightarrow> string) \<Rightarrow> string \<Rightarrow> velocity \<Rightarrow> unit io" where
  "process_velocity fmt glacier g =
     thn (lift (crop_measured g)) (\<lambda>(b, c).
       write_velocity fmt glacier c (box_nx b) (box_ny b))"

definition outputs_exist :: "string \<Rightarrow> world \<Rightarrow> bool" where
  "outputs_exist glacier w \<longleftrightarrow>
     path_exists (glacier @ ''/UDEM.xy'') w \<or> path_exists (glacier @ ''/VDEM.xy'') w \<or>
     path_exists (glacier @ ''/EUDEM.xy'') w \<or> path_exists (glacier @ ''/EVDEM.xy'') w"

definition make_velocity :: "(real \<Rightarrow> string) \<Rightarrow> reader \<Rightarrow> string \<Rightarrow> unit io" where
  "make_velocity fmt rd glacier =
     thn (\<lambda>w. if \<not> path_exists glacier w then makedirs glacier w else ret () w) (\<lambda>_.
     thn (\<lambda>w. if \<not> outputs_exist glacier w
              then thn (lift (read_velocity rd glacier)) (process_velocity fmt glacier) w
              else ret () w) (\<lambda>_.
       py_print (''Done making velocity data for '' @ glacier)))"

definition main_velocity :: "(real \<Rightarrow> string) \<Rightarrow> reader \<Rightarrow> unit io" where
  "main_velocity fmt rd = for_each (make_velocity fmt rd) (map fst velocity_data)"

section \<open>The solver input file (sif\_template.py)\<close>

text \<open>
  \<open>str.title\<close> on ASCII text: the first letter of every run of letters in upper case,
  the others in lower case.
\<close>

definition is_lower :: "char \<Rightarrow> bool" where
  "is_lower c \<longleftrightarrow> 97 \<le> (of_char c :: nat) \<and> (of_char c :: nat) \<le> 122"

definition is_upper :: "char \<Rightarrow> bool" where
  "is_upper c \<longleftrightarrow> 65 \<le> (of_char c :: nat) \<and> (of_char c :: nat) \<le> 90"

definition to_upper :: "char \<Rightarrow> char" where
  "to_upper c = (if is_lower c then char_of ((of_char c :: nat) - 32) else c)"

definition to_lower :: "char \<Rightarrow> char" where
  "to_lower c = (if is_upper c then char_of ((of_char c :: nat) + 32) else c)"

fun title_from :: "bool \<Rightarrow> string \<Rightarrow> string" where
  "title_from prev [] = []"
| "title_from prev (c # cs) =
     (if is_lower c \<or> is_upper c
      then (if prev then to_lower c else to_upper c) # title_from True cs
      else c # title_from False cs)"

definition title :: "string \<Rightarrow> string" where
  "title s = title_from False s"

text \<open>
  The template, cut at its three replacement fields \<open>{0}\<close>, \<open>{1}\<close> and \<open>{2}\<close>.
\<close>

definition sif_part0 :: string where
  \<open>sif_part0 = concat
    [''\<newline>'',
     ''check keywords warn\<newline>'',
     ''\<newline>'',
     ''! name of the run used for the outputs\<newline>'',
     ''$name="Robin_Beta"\<newline>'',
     ''\<newline>'',
     ''\<newline>'',
     ''! Regularization parameter\<newline>'',
     ''$Lambda='']\<close>

definition sif_part1 :: string where
  \<open>sif_part1 = concat
    [''\<newline>'',
     ''\<newline>'',
     ''!some constants\<newline>'',
     ''$yearinsec = 365.25*24*60*60\<newline>'',
     ''$rhoi = 917.0/(1.0e6*yearinsec^2)  ! MPa - a - m\<newline>'',
     ''$gravity = -9.81*yearinsec^2\<newline>'',
     ''\<newline>'',
     ''\<newline>'',
     ''Header\<newline>'',
     ''  Mesh DB "elmer" "'']\<close>

definition sif_part2 :: string where
  \<open>sif_part2 = concat
    [''3d"\<newline>'',
     ''End\<newline>'',
     ''\<newline>'',
     ''\<newline>'',
     ''!!!!!!!!!!!!!!!!!!!!!!!!!!!!!!!!!!!!!!!\<newline>'',
     ''Simulation\<newline>'',
     ''  Coordinate System  = Cartesian 3D\<newline>'',
     ''  Simulation Type = Steady State\<newline>'',
     ''\<newline>'',
     ''  Output Intervals = 1\<newline>'',
     ''\<newline>'',
     ''  Steady State Max Iterations = '']\<close>

definition sif_part3 :: string where
  \<open>sif_part3 = concat
    [''\<newline>'',
     ''  Steady State Min Iterations = 1\<newline>'',
     ''\<newline>'',
     ''  Output File = "Test_$name".result"\<newline>'',
     ''  Post File = "Test_$name".ep"\<newline>'',
     ''\<newline>'',
     ''  Initialize Dirichlet Conditions = Logical False\<newline>'',
     ''\<newline>'',
     ''  max output level = 3\<newline>'',
     ''End\<newline>'',
     ''!!!!!!!!!!!!!!!!!!!!!!!!!!!!!!!!!!!!!!!\<newline>'',
     ''\<newline>'',
     ''! Main ice body\<newline>'',
     ''Body 1\<newline>'',
     ''  Equation = 1\<newline>'',
     ''  Body Force = 1\<newline>'',
     ''  Material = 1\<newline>'',
     ''  Initial Condition = 1\<newline>'',
     ''End\<newline>'',
     ''\<newline>'',
     ''! lower surface\<newline>'',
     ''Body 2\<newline>'',
     ''  Equation = 2\<newline>'',
     ''  Body Force = 1\<newline>'',
     ''  Material = 1\<newline>'',
     ''  Initial Condition = 1\<newline>'',
     ''End\<newline>'',
     ''\<newline>'',
     ''!!!!!!!!!!!!!!!!!!!!!!!!!!!!!!!!!!!!!!!\<newline>'',
     ''Initial Condition 1\<newline>'',
     ''  MuS = Variable coordinate 1\<newline>'',
     ''      Real procedure "lib/Init.so" "muIni"\<newline>'',
     ''\<newline>'',
     ''! initial guess for (square root) slip coeff.\<newline>'',
     ''  Beta = Variable Coordinate 1\<newline>'',
     ''      Real procedure "lib/Init.so" "betaIni"\<newline>'',
     ''\<newline>'',
     ''  Pressure = Real 0.0\<newline>'',
     ''  Velocity 1 = Real 0.0\<newline>'',
     ''  Velocity 2 = Real 0.0\<newline>'',
     ''  Velocity 3 = Real 0.0\<newline>'',
     ''\<newline>'',
     ''  VeloD 1 = Real 0.0\<newline>'',
     ''  VeloD 2 = Real 0.0\<newline>'',
     ''  VeloD 3 = Real 0.0\<newline>'',
     ''  VeloD 4 = Real 0.0\<newline>'',
     ''\<newline>'',
     ''! Surface velocities (data)\<newline>'',
     ''  Vsurfini 1 = Variable Coordinate 1\<newline>'',
     ''     Real procedure "lib/Init.so" "USIni"\<newline>'',
     ''  Vsurfini 2 = Variable Coordinate 1\<newline>'',
     ''     Real procedure "lib/Init.so" "VSIni"\<newline>'',
     ''End\<newline>'',
     ''\<newline>'',
     ''\<newline>'',
     ''!!!!!!!!!!!!!!!!!!!!!!!!!!!!!!!!!!!!!!!\<newline>'',
     ''Body Force 1\<newline>'',
     ''  Flow BodyForce 1 = Real 0.0\<newline>'',
     ''  Flow BodyForce 2 = Real 0.0\<newline>'',
     ''  Flow BodyForce 3 = Real $gravity\<newline>'',
     ''End\<newline>'',
     ''\<newline>'',
     ''\<newline>'',
     ''!!!!!!!!!!!!!!!!!!!!!!!!!!!!!!!!!!!!!!!\<newline>'',
     ''!! ice material properties in MPa - m - a system\<newline>'',
     ''Material 1\<newline>'',
     ''  Density = Real $rhoi\<newline>'',
     ''  Viscosity Model = String "power law"\<newline>'',
     ''\<newline>'',
     ''  Viscosity = Equals MuS\<newline>'',
     ''\<newline>'',
     ''  Viscosity Exponent = Real $1.0e00/3.0e00\<newline>'',
     ''  Critical Shear Rate = Real 1.0e-10\<newline>'',
     ''End\<newline>'',
     ''\<newline>'',
     ''!!!! Navier-Stokes Solution\<newline>'',
     ''Solver 1\<newline>'',
     ''  Equation = "Navier-Stokes"\<newline>'',
     ''\<newline>'',
     ''  Stabilize = logical True\<newline>'',
     ''  flow model = Stokes\<newline>'',
     ''\<newline>'',
     ''  Linear System Solver = Direct\<newline>'',
     ''  Linear System Direct Method =  mumps\<newline>'',
     ''  mumps percentage increase working space = integer 60\<newline>'',
     ''  !Linear System Solver = Iterative\<newline>'',
     ''  ! Linear System Iterative Method = GMRES\<newline>'',
     ''  ! Linear System GMRES Restart = 100\<newline>'',
     ''  ! Linear System Preconditioning= ILU2\<newline>'',
     ''  ! Linear System Convergence Tolerance= 1.0e-08\<newline>'',
     ''  ! Linear System Max Iterations = 1000\<newline>'',
     ''\<newline>'',
     ''!\<newline>'',
     ''  Nonlinear System Max Iterations = Integer 100\<newline>'',
     ''  Nonlinear System Convergence Tolerance  = Real 1.0e-7\<newline>'',
     ''  Nonlinear System Newton After Iterations = Integer 10\<newline>'',
     ''  Nonlinear System Newton After Tolerance = Real 1.0e-03\<newline>'',
     ''  Nonlinear System Relaxation Factor = Real 1.0\<newline>'',
     ''\<newline>'',
     ''  Nonlinear System Reset Newton = Logical True\<newline>'',
     ''\<newline>'',
     ''  Steady State Convergence Tolerance = Real 1.0e-12\<newline>'',
     ''\<newline>'',
     ''! Define  some usefull Variables\<newline>'',
     ''  Exported Variable 1 = MuS\<newline>'',
     ''  Exported Variable 1 DOFS = 1\<newline>'',
     ''\<newline>'',
     ''! square root of the slip coef\<newline>'',
     ''  Exported Variable 2 = Beta\<newline>'',
     ''  Exported Variable 2 DOFS = Integer 1\<newline>'',
     ''! derivative of the cost fn wr to beta\<newline>'',
     ''  Exported Variable 3 = DJDBeta\<newline>'',
     ''  Exported Variable 3 DOFS = Integer 1\<newline>'',
     ''! value of the cost function\<newline>'',
     ''  Exported Variable 4 = CostValue\<newline>'',
     ''  Exported Variable 4 DOFS = Integer 1\<newline>'',
     ''\<newline>'',
     ''  Exported Variable 5 = VsurfIni\<newline>'',
     ''  Exported Variable 5 DOFS = Integer 2\<newline>'',
     ''\<newline>'',
     ''End\<newline>'',
     ''\<newline>'',
     ''!!!! Navier-Stokes = Dirichlet Problem\<newline>'',
     ''Solver 2\<newline>'',
     ''  Equation = "NS-Dirichlet"\<newline>'',
     ''\<newline>'',
     ''  Variable = VeloD\<newline>'',
     ''  Variable Dofs = 4\<newline>'',
     ''\<newline>'',
     ''  procedure = "FlowSolve" "FlowSolver"\<newline>'',
     ''\<newline>'',
     ''  Linear System Solver = Direct\<newline>'',
     ''  Linear System Direct Method = mumps\<newline>'',
     ''  mumps percentage increase working space = integer 60\<newline>'',
     ''  !Linear System Solver = Iterative\<newline>'',
     ''  ! Linear System Iterative Method = GMRES\<newline>'',
     ''  ! Linear System GMRES Restart = 100\<newline>'',
     ''  ! Linear System Preconditioning= ILU2\<newline>'',
     ''  ! Linear System Convergence Tolerance= 1.0e-08\<newline>'',
     ''  ! Linear System Max Iterations = 1000\<newline>'',
     ''\<newline>'',
     ''\<newline>'',
     ''  Nonlinear System Max Iterations = Integer 100\<newline>'',
     ''  Nonlinear System Convergence Tolerance  = Real 1.0e-7\<newline>'',
     ''  Nonlinear System Newton After Iterations = Integer 10\<newline>'',
     ''  Nonlinear System Newton After Tolerance = Real 1.0e-03\<newline>'',
     ''  Nonlinear System Relaxation Factor = Real 1.0\<newline>'',
     ''\<newline>'',
     ''  Nonlinear System Reset Newton = Logical True\<newline>'',
     ''\<newline>'',
     ''  Steady State Convergence Tolerance = Real 1.0e-12\<newline>'',
     ''End\<newline>'',
     ''\<newline>'',
     ''!!! Compute Cost function\<newline>'',
     ''Solver 3\<newline>'',
     ''\<newline>'',
     ''  Equation = "Cost"\<newline>'',
     ''\<newline>'',
     ''!!  Solver need to be associated => Define dumy variable\<newline>'',
     ''  Variable = -nooutput "CostV"\<newline>'',
     ''  Variable DOFs = 1\<newline>'',
     ''\<newline>'',
     ''  procedure = "../elmerfem/elmerice/ElmerIceSolvers" "CostSolver_Robin"\<newline>'',
     ''\<newline>'',
     ''\<newline>'',
     ''  Cost Variable Name = String "CostValue"  ! Name of Cost Variable\<newline>'',
     ''\<newline>'',
     ''  Neumann Solution Name = String "Flow Solution"\<newline>'',
     ''  Dirichlet Solution Name = String "VeloD"\<newline>'',
     ''\<newline>'',
     ''  Optimized Variable Name = String "Beta"  ! Name of Beta for Regularization\<newline>'',
     ''  Lambda = Real  $Lambda                   ! Regularization Coef\<newline>'',
     ''\<newline>'',
     ''  Cost Filename = File "Cost_$name".dat"   ! save the cost as a function of iterations\<newline>'',
     ''end\<newline>'',
     ''\<newline>'',
     ''!!!!!  Compute Derivative of Cost function / Beta\<newline>'',
     ''Solver 4\<newline>'',
     ''  Equation = "DJDBeta"\<newline>'',
     ''\<newline>'',
     ''!!  Solver need to be associated => Define dumy variable\<newline>'',
     ''  Variable = -nooutput "DJDB"\<newline>'',
     ''  Variable DOFs = 1\<newline>'',
     ''\<newline>'',
     ''  procedure = "../elmerfem/elmerice/ElmerIceSolvers" "DJDBeta_Robin"\<newline>'',
     ''\<newline>'',
     ''  Neumann Solution Name = String "Flow Solution"\<newline>'',
     ''  Dirichlet Solution Name = String "VeloD"\<newline>'',
     ''  Optimized Variable Name = String "Beta"  ! Name of Beta variable\<newline>'',
     ''  Gradient Variable Name = String "DJDBeta"   ! Name of gradient variable\<newline>'',
     ''  PowerFormulation = Logical False\<newline>'',
     ''  Beta2Formulation = Logical True        ! SlipCoef define as Beta^2\<newline>'',
     ''\<newline>'',
     ''  Lambda = Real  $Lambda                   ! Regularization Coef\<newline>'',
     ''end\<newline>'',
     ''\<newline>'',
     ''!!!!! Optimization procedure\<newline>'',
     ''Solver 5\<newline>'',
     ''  Equation = "Optimize_m1qn3"\<newline>'',
     ''\<newline>'',
     ''!!  Solver need to be associated => Define dumy variable\<newline>'',
     ''  Variable = -nooutput "UB"\<newline>'',
     ''  Variable DOFs = 1\<newline>'',
     ''\<newline>'',
     ''  procedure = "../elmerfem/elmerice/ElmerIceSolvers" "Optimize_m1qn3Parallel"\<newline>'',
     ''\<newline>'',
     ''  Cost Variable Name = String "CostValue"\<newline>'',
     ''  Optimized Variable Name = String "Beta"\<newline>'',
     ''  Gradient Variable Name = String "DJDBeta"\<newline>'',
     ''  gradient Norm File = String "GradientNormAdjoint_$name".dat"\<newline>'',
     ''\<newline>'',
     ''\<newline>'',
     ''! M1QN3 Parameters\<newline>'',
     ''  M1QN3 dxmin = Real 1.0e-10\<newline>'',
     ''  M1QN3 epsg = Real  1.e-6\<newline>'',
     ''  M1QN3 niter = Integer 200\<newline>'',
     ''  M1QN3 nsim = Integer 200\<newline>'',
     ''  M1QN3 impres = Integer 5\<newline>'',
     ''  M1QN3 DIS Mode = Logical False\<newline>'',
     ''  M1QN3 df1 = Real 0.5\<newline>'',
     ''  M1QN3 normtype = String "dfn"\<newline>'',
     ''  M1QN3 OutputFile = File  "M1QN3_$name".out"\<newline>'',
     ''  M1QN3 ndz = Integer 20\<newline>'',
     ''\<newline>'',
     ''end\<newline>'',
     ''\<newline>'',
     ''Solver 6\<newline>'',
     ''  Equation = "ResultOutput"\<newline>'',
     ''\<newline>'',
     ''  Procedure = File "ResultOutputSolve" "ResultOutputSolver"\<newline>'',
     ''\<newline>'',
     ''  Output File Name  = string "Output_$name""\<newline>'',
     ''  Vtu Format = logical true\<newline>'',
     ''  Binary Output = True\<newline>'',
     ''  Single Precision = True\<newline>'',
     ''\<newline>'',
     ''End\<newline>'',
     ''\<newline>'',
     ''\<newline>'',
     ''!!!!!!!!!!!!!!!!!!!!!!!!!!!!!!!!!!!!!!\<newline>'',
     ''Equation 1\<newline>'',
     ''  Active Solvers (4)= 1 2 3 6\<newline>'',
     ''  NS Convect= False\<newline>'',
     ''End\<newline>'',
     ''\<newline>'',
     ''Equation 2\<newline>'',
     '' Active Solvers (2)=  4 5\<newline>'',
     ''End\<newline>'',
     ''\<newline>'',
     ''!!!!!!!!!!!!!!!!!!!!!!!!!!!!!!!!!!!!!!\<newline>'',
     ''Boundary Condition 1\<newline>'',
     ''  Name = "Side Walls"\<newline>'',
     ''  Target Boundaries(2) = 4 6\<newline>'',
     ''\<newline>'',
     ''  Velocity 1 = Variable Coordinate 1\<newline>'',
     ''    Real procedure "lib/Init.so" "UWa"\<newline>'',
     ''  Velocity 2 = Variable Coordinate 1\<newline>'',
     ''    Real procedure "lib/Init.so" "VWa"\<newline>'',
     ''\<newline>'',
     ''\<newline>'',
     ''  VeloD 1 = Variable Coordinate 1\<newline>'',
     ''    Real procedure "lib/Init.so" "UWa"\<newline>'',
     ''  VeloD 2 = Variable Coordinate 1\<newline>'',
     ''    Real procedure "lib/Init.so" "VWa"\<newline>'',
     ''\<newline>'',
     ''End\<newline>'',
     ''\<newline>'',
     ''\<newline>'',
     ''Boundary Condition 2\<newline>'',
     ''  Name = "Inflow and Outflow"\<newline>'',
     ''  Target Boundaries(3) = 3 5 7\<newline>'',
     ''\<newline>'',
     ''! Dirichlet BCs\<newline>'',
     ''  Velocity 1 = Variable Coordinate 1\<newline>'',
     ''    Real procedure "lib/Init.so" "UWa"\<newline>'',
     ''  Velocity 2 = Variable Coordinate 1\<newline>'',
     ''    Real procedure "lib/Init.so" "VWa"\<newline>'',
     ''\<newline>'',
     ''!Dirichlet BC => Same Dirichlet\<newline>'',
     ''  VeloD 1 = Variable Coordinate 1\<newline>'',
     ''    Real procedure "lib/Init.so" "UWa"\<newline>'',
     ''  VeloD 2 = Variable Coordinate 1\<newline>'',
     ''    Real procedure "lib/Init.so" "VWa"\<newline>'',
     ''End\<newline>'',
     ''\<newline>'',
     ''\<newline>'',
     ''Boundary Condition 3\<newline>'',
     ''  !Name= "bed" mandatory to compute regularistaion term of the cost function (int (dbeta/dx) 2)\<newline>'',
     ''  Name = "bed"\<newline>'',
     ''  Target Boundaries(1) = 1\<newline>'',
     ''  !Body Id used to solve\<newline>'',
     ''\<newline>'',
     ''  Body ID = Integer 2\<newline>'',
     ''\<newline>'',
     ''  Save Line = Logical True\<newline>'',
     ''\<newline>'',
     ''  Normal-Tangential Velocity = Logical True\<newline>'',
     ''  Normal-Tangential VeloD = Logical True\<newline>'',
     ''\<newline>'',
     ''  Velocity 1 = Real 0.0e0\<newline>'',
     ''  VeloD 1 = Real 0.0e0\<newline>'',
     ''\<newline>'',
     ''  Slip Coefficient 2 = Variable Beta\<newline>'',
     ''     REAL MATC "tx*tx"\<newline>'',
     ''\<newline>'',
     ''  Slip Coefficient 3 = Variable Beta\<newline>'',
     ''     REAL MATC "tx*tx"\<newline>'',
     ''\<newline>'',
     ''End\<newline>'',
     ''\<newline>'',
     ''! Upper Surface\<newline>'',
     ''Boundary Condition 4\<newline>'',
     ''  !Name= "Surface" mandatory to compute cost function\<newline>'',
     ''  Name = "Surface"\<newline>'',
     ''  Target Boundaries(1) = 2\<newline>'',
     ''\<newline>'',
     ''  Save Line = Logical True\<newline>'',
     ''\<newline>'',
     ''  ! Dirichlet problem applied observed velocities\<newline>'',
     ''  VeloD 1 = Equals  Vsurfini 1\<newline>'',
     ''  VeloD 2 = Equals  Vsurfini 2\<newline>'',
     ''\<newline>'',
     ''End\<newline>'',
     ''\<newline>'',
     ''    '']\<close>

text \<open>
  \<open>text.format(regularization, glacier_name, max_iterations)\<close>; \<open>fmt\<close> is the text of
  a float.
\<close>

definition sif_text :: "(real \<Rightarrow> string) \<Rightarrow> real \<Rightarrow> string \<Rightarrow> int \<Rightarrow> string" where
  "sif_text fmt regularization glacier_name max_iterations =
     sif_part0 @ fmt regularization @ sif_part1 @ glacier_name @ sif_part2 @
     str_int max_iterations @ sif_part3"

text \<open>\<open>file_name\<close> is \<open>None\<close> when the caller leaves the default.\<close>

definition generate_sif_file ::
  "(real \<Rightarrow> string) \<Rightarrow> string \<Rightarrow> string option \<Rightarrow> real \<Rightarrow> int \<Rightarrow> unit io"
where
  "generate_sif_file fmt glacier_name file_name regularization max_iterations =
     (if glacier_name \<notin> set [''jakobshavn'', ''helheim'', ''kangerd'']
      then lift (Inl (ValueError
             ''Glacier name must be either jakobshavn, helheim or kangerd.''))
      else
        (let fname = (case file_name of
                        None \<Rightarrow> ''elmer/Robin_Beta_'' @ title glacier_name @ ''.sif''
                      | Some n \<Rightarrow> n);
             text = sif_text fmt regularization glacier_name max_iterations
         in thn (py_open_w fname) (\<lambda>_. py_write fname text)))"

section \<open>Notions used by the statements\<close>

text \<open>The row and column indices of the cells of \<open>f\<close> that differ from \<open>s\<close>.\<close>

definition valid_cells :: "'a array2 \<Rightarrow> 'a \<Rightarrow> (nat \<times> nat) set" where
  "valid_cells f s = {(i, j). i < length f \<and> j < length (f ! i) \<and> f ! i ! j \<noteq> s}"

definition valid_rows :: "'a array2 \<Rightarrow> 'a \<Rightarrow> int set" where
  "valid_rows f s = (\<lambda>p. int (fst p)) ` valid_cells f s"

definition valid_cols :: "'a array2 \<Rightarrow> 'a \<Rightarrow> int set" where
  "valid_cols f s = (\<lambda>p. int (snd p)) ` valid_cells f s"


text \<open>
  The point-list format in the words of its description: the two counts, then one line
  per cell, columns outermost.
\<close>

definition axis_text :: "(real \<Rightarrow> string) \<Rightarrow> real list \<Rightarrow> real list \<Rightarrow> nat \<Rightarrow> nat \<Rightarrow> string" where
  "axis_text fmt xa ya j i = fmt (xa ! j) @ '' '' @ fmt (ya ! i) @ '' ''"

definition point_line ::
  "(real \<Rightarrow> string) \<Rightarrow> real list \<Rightarrow> real list \<Rightarrow> real array2 \<Rightarrow> nat \<Rightarrow> nat \<Rightarrow> string"
where
  "point_line fmt xa ya f j i = axis_text fmt xa ya j i @ fmt (f ! i ! j) @ ''\<newline>''"

definition point_lines ::
  "(real \<Rightarrow> string) \<Rightarrow> real list \<Rightarrow> real list \<Rightarrow> real array2 \<Rightarrow> nat \<Rightarrow> nat \<Rightarrow> string list"
where
  "point_lines fmt xa ya f nx ny =
     concat (map (\<lambda>j. map (\<lambda>i. point_line fmt xa ya f j i) [0..<ny]) [0..<nx])"

definition xy_text ::
  "(real \<Rightarrow> string) \<Rightarrow> real list \<Rightarrow> real list \<Rightarrow> real array2 \<Rightarrow> nat \<Rightarrow> nat \<Rightarrow> string"
where
  "xy_text fmt xa ya f nx ny =
     str_int (int nx) @ ''\<newline>'' @ str_int (int ny) @ ''\<newline>'' @
     concat (point_lines fmt xa ya f nx ny)"

text \<open>The four files of a glacier with the given texts.\<close>

definition put4 :: "string \<Rightarrow> string \<Rightarrow> string \<Rightarrow> string \<Rightarrow> string \<Rightarrow> world \<Rightarrow> world" where
  "put4 glacier tu tv teu tev w =
     w\<lparr>files := (files w)
          (glacier @ ''/UDEM.xy'' \<mapsto> File tu, glacier @ ''/VDEM.xy'' \<mapsto> File tv,
           glacier @ ''/EUDEM.xy'' \<mapsto> File teu, glacier @ ''/EVDEM.xy'' \<mapsto> File tev)\<rparr>"

text \<open>
  The name of the glacier holds no null character, its directory is there and none of
  the four paths is a directory.
\<close>

definition can_open :: "string \<Rightarrow> world \<Rightarrow> bool" where
  "can_open glacier w \<longleftrightarrow>
     CHR 0x00 \<notin> set glacier \<and>
     files w glacier = Some Dir \<and>
     files w (glacier @ ''/UDEM.xy'') \<noteq> Some Dir \<and> files w (glacier @ ''/VDEM.xy'') \<noteq> Some Dir \<and>
     files w (glacier @ ''/EUDEM.xy'') \<noteq> Some Dir \<and> files w (glacier @ ''/EVDEM.xy'') \<noteq> Some Dir"

text \<open>
  The axes and a field reach at least \<open>nx\<close> columns and \<open>ny\<close> rows, so that every index
  of the two loops is in bounds.
\<close>

definition covers :: "nat \<Rightarrow> nat \<Rightarrow> real list \<Rightarrow> real list \<Rightarrow> real array2 \<Rightarrow> bool" where
  "covers nx ny xa ya f \<longleftrightarrow>
     nx \<le> length xa \<and> ny \<le> length ya \<and> ny \<le> length f \<and> (\<forall>i<ny. nx \<le> length (f ! i))"

definition covers_all :: "nat \<Rightarrow> nat \<Rightarrow> velocity \<Rightarrow> bool" where
  "covers_all nx ny c \<longleftrightarrow>
     covers nx ny (x_axis c) (y_axis c) (vx c) \<and> covers nx ny (x_axis c) (y_axis c) (vy c) \<and>
     covers nx ny (x_axis c) (y_axis c) (ex c) \<and> covers nx ny (x_axis c) (y_axis c) (ey c)"

text \<open>A box that lies inside an array of \<open>ny\<close> rows and \<open>nx\<close> columns.\<close>

definition in_range :: "bbox \<Rightarrow> nat \<Rightarrow> nat \<Rightarrow> bool" where
  "in_range b ny nx \<longleftrightarrow>
     0 \<le> imin b \<and> imin b \<le> imax b \<and> imax b < int ny \<and>
     0 \<le> jmin b \<and> jmin b \<le> jmax b \<and> jmax b < int nx"

text \<open>What exists in a directory lies in a directory that exists.\<close>

definition wf_world :: "world \<Rightarrow> bool" where
  "wf_world w \<longleftrightarrow> (\<forall>p. path_exists p w \<and> dirname p \<noteq> [] \<longrightarrow> files w (dirname p) = Some Dir)"

section \<open>Example inputs\<close>

text \<open>A float-to-text conversion for the examples: the integral part in decimal.\<close>

definition str_floor :: "real \<Rightarrow> string" where
  "str_floor r = str_int \<lfloor>r\<rfloor>"

definition example_world :: world where
  "example_world = \<lparr>files = [''helheim'' \<mapsto> Dir], stdout = []\<rparr>"

text \<open>
  Five rows and five columns without data except a block of two by two at rows 1-2 and
  columns 1-2.
\<close>

definition block_field :: "real array2" where
  "block_field =
     [[missing, missing, missing, missing, missing],
      [missing, 1, 2, missing, missing],
      [missing, 3, 4, missing, missing],
      [missing, missing, missing, missing, missing],
      [missing, missing, missing, missing, missing]]"

definition block_grid :: velocity where
  "block_grid =
     \<lparr>x_axis = [10, 11, 12, 13, 14], y_axis = [20, 21, 22, 23, 24],
      vx = block_field, vy = block_field, ex = block_field, ey = block_field\<rparr>"

text \<open>One measured cell in the middle of five by five; \<open>vy\<close> has six rows and columns.\<close>

definition centre_field :: "real array2" where
  "centre_field =
     [[missing, missing, missing, missing, missing],
      [missing, missing, missing, missing, missing],
      [missing, missing, 7, missing, missing],
      [missing, missing, missing, missing, missing],
      [missing, missing, missing, missing, missing]]"

definition mismatched_grid :: velocity where
  "mismatched_grid =
     \<lparr>x_axis = [10, 11, 12, 13, 14], y_axis = [20, 21, 22, 23, 24],
      vx = centre_field, vy = replicate 6 (replicate 6 5),
      ex = centre_field, ey = centre_field\<rparr>"

definition small_grid :: velocity where
  "small_grid =
     \<lparr>x_axis = [10, 11], y_axis = [20, 21, 22],
      vx = [[1, 2], [3, 4], [5, 6]], vy = [[7, 8], [9, 10], [11, 12]],
      ex = [[0, 0], [0, 0], [0, 0]], ey = [[1, 1], [1, 1], [1, 1]]\<rparr>"

text \<open>
  A world in which the four files of a glacier exist, a reader that fails on every file,
  and a world with the directory of the solver files.
\<close>

definition done_world :: world where
  "done_world =
     \<lparr>files = [''helheim'' \<mapsto> Dir,
               ''helheim/UDEM.xy'' \<mapsto> File [], ''helheim/VDEM.xy'' \<mapsto> File [],
               ''helheim/EUDEM.xy'' \<mapsto> File [], ''helheim/EVDEM.xy'' \<mapsto> File []],
      stdout = []\<rparr>"

definition no_reader :: reader where
  "no_reader p = Inl (ExternalError p)"

definition elmer_world :: world where
  "elmer_world = \<lparr>files = [''elmer'' \<mapsto> Dir], stdout = []\<rparr>"

section \<open>Facts about detection\<close>

lemma bind_err_simps [simp]:
  "bind_err (Inl e) k = Inl e"
  "bind_err (Inr a) k = k a"
  by (simp_all add: bind_err_def)

lemma set_np_where_ne: "set (np_where_ne f s) = valid_cells f s"
  by (auto simp: np_where_ne_def valid_cells_def)

lemma py_min_Min: "xs \<noteq> [] \<Longrightarrow> py_min xs = Inr (Min (set xs))"
  by (cases xs) (simp_all only: py_min.simps Min.set_eq_fold, simp)

lemma py_max_Max: "xs \<noteq> [] \<Longrightarrow> py_max xs = Inr (Max (set xs))"
  by (cases xs) (simp_all only: py_max.simps Max.set_eq_fold, simp)

lemma finite_valid_cells: "finite (valid_cells f s)"
  by (simp flip: set_np_where_ne)

lemma detect_nonempty:
  assumes "valid_cells f s \<noteq> {}"
  shows "detect m s f =
           Inr \<lparr>imin = Min (valid_rows f s) - m, imax = Max (valid_rows f s) + m,
                jmin = Min (valid_cols f s) - m, jmax = Max (valid_cols f s) + m\<rparr>"
proof -
  have ne: "np_where_ne f s \<noteq> []"
    using assms set_np_where_ne [of f s] by auto
  have I: "set (map (\<lambda>p. int (fst p)) (np_where_ne f s)) = valid_rows f s"
    by (simp add: valid_rows_def set_np_where_ne)
  have J: "set (map (\<lambda>p. int (snd p)) (np_where_ne f s)) = valid_cols f s"
    by (simp add: valid_cols_def set_np_where_ne)
  show ?thesis
    unfolding detect_def Let_def
    using ne I J by (simp add: py_min_Min py_max_Max)
qed

lemma detect_empty:
  assumes "valid_cells f s = {}"
  shows "detect m s f = Inl (ValueError ''min() arg is an empty sequence'')"
proof -
  have "np_where_ne f s = []"
    using assms set_np_where_ne [of f s] by simp
  then show ?thesis
    by (simp add: detect_def)
qed

lemma is_array2_nth: "is_array2 ny nx f \<Longrightarrow> i < ny \<Longrightarrow> length (f ! i) = nx"
  by (simp add: is_array2_def list_all_length)

lemma is_array2_length: "is_array2 ny nx f \<Longrightarrow> length f = ny"
  by (simp add: is_array2_def)

lemma valid_cells_array2:
  assumes "is_array2 ny nx f"
  shows "valid_cells f s = {(i, j). i < ny \<and> j < nx \<and> f ! i ! j \<noteq> s}"
  using assms by (auto simp: valid_cells_def is_array2_def list_all_length)

lemma finite_valid_rows: "finite (valid_rows f s)"
  by (simp add: valid_rows_def finite_valid_cells)

lemma finite_valid_cols: "finite (valid_cols f s)"
  by (simp add: valid_cols_def finite_valid_cells)

section \<open>Facts about slicing, cropping and writing\<close>

lemma slice_bound_in_range: "0 \<le> k \<Longrightarrow> k \<le> int n \<Longrightarrow> slice_bound n k = nat k"
  by (simp add: slice_bound_def)

lemma py_slice_in_range:
  assumes "0 \<le> lo" "lo \<le> hi" "hi \<le> int (length xs)"
  shows "py_slice lo hi xs = take (nat (hi - lo)) (drop (nat lo) xs)"
proof -
  have "nat hi - nat lo = nat (hi - lo)"
    using assms by linarith
  then show ?thesis
    using assms by (simp add: py_slice_def slice_bound_in_range)
qed

lemma length_py_slice:
  assumes "0 \<le> lo" "lo \<le> hi" "hi \<le> int (length xs)"
  shows "length (py_slice lo hi xs) = nat (hi - lo)"
  using assms by (simp add: py_slice_in_range)

lemma nth_py_slice:
  assumes "0 \<le> lo" "lo \<le> hi" "hi \<le> int (length xs)" "k < nat (hi - lo)"
  shows "py_slice lo hi xs ! k = xs ! (nat lo + k)"
  using assms by (simp add: py_slice_in_range)

lemma length_crop_field:
  assumes "0 \<le> imin b" "imin b \<le> imax b" "imax b < int (length f)"
  shows "length (crop_field b f) = nat (box_ny b)"
  using assms by (simp add: crop_field_def length_py_slice box_ny_def)

lemma nth_crop_field:
  assumes "0 \<le> imin b" "imin b \<le> imax b" "imax b < int (length f)" "i < nat (box_ny b)"
  shows "crop_field b f ! i = py_slice (jmin b) (jmax b + 1) (f ! (nat (imin b) + i))"
  using assms by (simp add: crop_field_def length_py_slice nth_py_slice box_ny_def)

lemma crop_field_array2:
  assumes "is_array2 ny nx f" "in_range b ny nx"
  shows "is_array2 (nat (box_ny b)) (nat (box_nx b)) (crop_field b f)"
proof -
  have len: "length f = ny"
    using assms(1) by (rule is_array2_length)
  have r: "0 \<le> imin b" "imin b \<le> imax b" "imax b < int (length f)"
    and c: "0 \<le> jmin b" "jmin b \<le> jmax b" "jmax b < int nx"
    using assms(2) len by (simp_all add: in_range_def)
  have "length (crop_field b f ! i) = nat (box_nx b)" if "i < nat (box_ny b)" for i
  proof -
    have "nat (imin b) + i < ny"
      using that r len by (simp add: box_ny_def)
    then have "length (f ! (nat (imin b) + i)) = nx"
      using assms(1) by (simp add: is_array2_nth)
    then show ?thesis
      using that r c by (simp add: nth_crop_field length_py_slice box_nx_def)
  qed
  then show ?thesis
    using r by (simp add: is_array2_def list_all_length length_crop_field)
qed


lemma fmt_point_covers:
  assumes "covers nx ny xa ya f" "j < nx" "i < ny"
  shows "fmt_point fmt xa ya f j i = Inr (point_line fmt xa ya f j i)"
proof -
  have "j < length xa" "i < length ya" "i < length f" "j < length (f ! i)"
    using assms by (auto simp: covers_def dest: less_le_trans)
  then show ?thesis
    by (simp add: fmt_point_def index1_def index2_def point_line_def axis_text_def)
qed


lemma paths_distinct [simp]:
  "g @ ''/UDEM.xy'' \<noteq> g @ ''/VDEM.xy''" "g @ ''/UDEM.xy'' \<noteq> g @ ''/EUDEM.xy''"
  "g @ ''/UDEM.xy'' \<noteq> g @ ''/EVDEM.xy''" "g @ ''/VDEM.xy'' \<noteq> g @ ''/EUDEM.xy''"
  "g @ ''/VDEM.xy'' \<noteq> g @ ''/EVDEM.xy''" "g @ ''/EUDEM.xy'' \<noteq> g @ ''/EVDEM.xy''"
  "g @ ''/VDEM.xy'' \<noteq> g @ ''/UDEM.xy''" "g @ ''/EUDEM.xy'' \<noteq> g @ ''/UDEM.xy''"
  "g @ ''/EVDEM.xy'' \<noteq> g @ ''/UDEM.xy''" "g @ ''/EUDEM.xy'' \<noteq> g @ ''/VDEM.xy''"
  "g @ ''/EVDEM.xy'' \<noteq> g @ ''/VDEM.xy''" "g @ ''/EVDEM.xy'' \<noteq> g @ ''/EUDEM.xy''"
  by simp_all

lemma path_not_dir [simp]:
  "g @ ''/UDEM.xy'' \<noteq> g" "g @ ''/VDEM.xy'' \<noteq> g"
  "g @ ''/EUDEM.xy'' \<noteq> g" "g @ ''/EVDEM.xy'' \<noteq> g"
  by simp_all

lemma dirname_slash: "CHR ''/'' \<notin> set n \<Longrightarrow> dirname (g @ CHR ''/'' # n) = g"
  by (simp add: dirname_def dropWhile_append)

lemma basename_slash: "CHR ''/'' \<notin> set n \<Longrightarrow> basename (g @ CHR ''/'' # n) = n"
  by (simp add: basename_def takeWhile_append)

lemma basename_outputs [simp]:
  "basename (g @ ''/UDEM.xy'') = ''UDEM.xy''" "basename (g @ ''/VDEM.xy'') = ''VDEM.xy''"
  "basename (g @ ''/EUDEM.xy'') = ''EUDEM.xy''" "basename (g @ ''/EVDEM.xy'') = ''EVDEM.xy''"
  by (simp_all add: basename_slash)

lemma dirname_outputs [simp]:
  "dirname (g @ ''/UDEM.xy'') = g" "dirname (g @ ''/VDEM.xy'') = g"
  "dirname (g @ ''/EUDEM.xy'') = g" "dirname (g @ ''/EVDEM.xy'') = g"
  by (simp_all add: dirname_slash)

lemma write_U:
  "py_write (g @ ''/UDEM.xy'') t (put4 g a b c d w) = (Inr (), put4 g (a @ t) b c d w)"
  by (simp add: py_write_def put4_def content_def fun_eq_iff)

lemma write_V:
  "py_write (g @ ''/VDEM.xy'') t (put4 g a b c d w) = (Inr (), put4 g a (b @ t) c d w)"
  by (simp add: py_write_def put4_def content_def fun_eq_iff)

lemma write_EU:
  "py_write (g @ ''/EUDEM.xy'') t (put4 g a b c d w) = (Inr (), put4 g a b (c @ t) d w)"
  by (simp add: py_write_def put4_def content_def fun_eq_iff)

lemma write_EV:
  "py_write (g @ ''/EVDEM.xy'') t (put4 g a b c d w) = (Inr (), put4 g a b c (d @ t) w)"
  by (simp add: py_write_def put4_def content_def fun_eq_iff)

lemma lift_apply [simp]: "lift r w = (r, w)"
  by (simp add: lift_def)

lemma ret_apply [simp]: "ret a w = (Inr a, w)"
  by (simp add: ret_def)

lemma write_point_U:
  assumes "covers nx ny xa ya f" "j < nx" "i < ny"
  shows "write_point fmt (g @ ''/UDEM.xy'') xa ya f j i (put4 g tu tv teu tev w) =
           (Inr (), put4 g (tu @ point_line fmt xa ya f j i) tv teu tev w)"
  using assms by (simp add: write_point_def thn_def fmt_point_covers write_U)

lemma write_point_V:
  assumes "covers nx ny xa ya f" "j < nx" "i < ny"
  shows "write_point fmt (g @ ''/VDEM.xy'') xa ya f j i (put4 g tu tv teu tev w) =
           (Inr (), put4 g tu (tv @ point_line fmt xa ya f j i) teu tev w)"
  using assms by (simp add: write_point_def thn_def fmt_point_covers write_V)

lemma write_point_EU:
  assumes "covers nx ny xa ya f" "j < nx" "i < ny"
  shows "write_point fmt (g @ ''/EUDEM.xy'') xa ya f j i (put4 g tu tv teu tev w) =
           (Inr (), put4 g tu tv (teu @ point_line fmt xa ya f j i) tev w)"
  using assms by (simp add: write_point_def thn_def fmt_point_covers write_EU)

lemma write_point_EV:
  assumes "covers nx ny xa ya f" "j < nx" "i < ny"
  shows "write_point fmt (g @ ''/EVDEM.xy'') xa ya f j i (put4 g tu tv teu tev w) =
           (Inr (), put4 g tu tv teu (tev @ point_line fmt xa ya f j i) w)"
  using assms by (simp add: write_point_def thn_def fmt_point_covers write_EV)

lemma write_points_put4:
  assumes "covers_all nx ny c" "j < nx" "i < ny"
  shows "write_points fmt g c j i (put4 g tu tv teu tev w) =
           (Inr (), put4 g (tu @ point_line fmt (x_axis c) (y_axis c) (vx c) j i)
                           (tv @ point_line fmt (x_axis c) (y_axis c) (vy c) j i)
                           (teu @ point_line fmt (x_axis c) (y_axis c) (ex c) j i)
                           (tev @ point_line fmt (x_axis c) (y_axis c) (ey c) j i) w)"
  using assms
  by (simp add: write_points_def thn_def covers_all_def
      write_point_U [where nx = nx and ny = ny] write_point_V [where nx = nx and ny = ny]
      write_point_EU [where nx = nx and ny = ny] write_point_EV [where nx = nx and ny = ny])

lemma inner_loop_put4:
  assumes "covers_all nx ny c" "j < nx" "\<forall>i \<in> set ks. i < ny"
  shows "for_each (\<lambda>i. write_points fmt g c j i) ks (put4 g tu tv teu tev w) =
           (Inr (), put4 g (tu @ concat (map (point_line fmt (x_axis c) (y_axis c) (vx c) j) ks))
                           (tv @ concat (map (point_line fmt (x_axis c) (y_axis c) (vy c) j) ks))
                           (teu @ concat (map (point_line fmt (x_axis c) (y_axis c) (ex c) j) ks))
                           (tev @ concat (map (point_line fmt (x_axis c) (y_axis c) (ey c) j) ks)) w)"
  using assms(3)
proof (induction ks arbitrary: tu tv teu tev)
  case Nil
  then show ?case by simp
next
  case (Cons k ks)
  then show ?case
    using assms(1,2) by (simp add: write_points_put4)
qed

lemma outer_loop_put4:
  assumes "covers_all nx ny c" "\<forall>j \<in> set js. j < nx"
  shows "for_each (\<lambda>j. for_each (\<lambda>i. write_points fmt g c j i) [0..<ny]) js
           (put4 g tu tv teu tev w) =
           (Inr (),
            put4 g
              (tu @ concat (map (\<lambda>j. concat (map (point_line fmt (x_axis c) (y_axis c) (vx c) j) [0..<ny])) js))
              (tv @ concat (map (\<lambda>j. concat (map (point_line fmt (x_axis c) (y_axis c) (vy c) j) [0..<ny])) js))
              (teu @ concat (map (\<lambda>j. concat (map (point_line fmt (x_axis c) (y_axis c) (ex c) j) [0..<ny])) js))
              (tev @ concat (map (\<lambda>j. concat (map (point_line fmt (x_axis c) (y_axis c) (ey c) j) [0..<ny])) js))
              w)"
  using assms(2)
proof (induction js arbitrary: tu tv teu tev)
  case Nil
  then show ?case by simp
next
  case (Cons j js)
  then show ?case
    using assms(1) by (simp add: inner_loop_put4)
qed

lemma concat_point_lines:
  "concat (point_lines fmt xa ya f nx ny) =
     concat (map (\<lambda>j. concat (map (point_line fmt xa ya f j) [0..<ny])) [0..<nx])"
  unfolding point_lines_def by (induction nx) simp_all

lemma open_all:
  assumes "can_open g w"
  shows "thn (py_open_w (g @ ''/UDEM.xy'')) (\<lambda>_.
         thn (py_open_w (g @ ''/VDEM.xy'')) (\<lambda>_.
         thn (py_open_w (g @ ''/EUDEM.xy'')) (\<lambda>_.
         thn (py_open_w (g @ ''/EVDEM.xy'')) k))) w = k () (put4 g [] [] [] [] w)"
  using assms
  by (simp add: thn_def py_open_w_def can_open_def put4_def)

lemma headers_put4:
  "for_each (\<lambda>p. py_write p h)
     [g @ ''/UDEM.xy'', g @ ''/VDEM.xy'', g @ ''/EUDEM.xy'', g @ ''/EVDEM.xy'']
     (put4 g tu tv teu tev w) = (Inr (), put4 g (tu @ h) (tv @ h) (teu @ h) (tev @ h) w)"
  by (simp add: write_U write_V write_EU write_EV)

lemma write_velocity_covers:
  assumes "can_open g w" "covers_all nx ny c"
  shows "write_velocity fmt g c (int nx) (int ny) w =
           (Inr (), put4 g (xy_text fmt (x_axis c) (y_axis c) (vx c) nx ny)
                           (xy_text fmt (x_axis c) (y_axis c) (vy c) nx ny)
                           (xy_text fmt (x_axis c) (y_axis c) (ex c) nx ny)
                           (xy_text fmt (x_axis c) (y_axis c) (ey c) nx ny) w)"
proof -
  let ?h = "str_int (int nx) @ ''\<newline>'' @ str_int (int ny) @ ''\<newline>''"
  have "write_velocity fmt g c (int nx) (int ny) w =
          thn (for_each (\<lambda>p. py_write p ?h)
                 [g @ ''/UDEM.xy'', g @ ''/VDEM.xy'', g @ ''/EUDEM.xy'', g @ ''/EVDEM.xy''])
              (\<lambda>_. for_each (\<lambda>j. for_each (\<lambda>i. write_points fmt g c j i) [0..<ny]) [0..<nx])
              (put4 g [] [] [] [] w)"
    unfolding write_velocity_def using assms(1) by (simp only: open_all nat_int)
  also have "\<dots> = for_each (\<lambda>j. for_each (\<lambda>i. write_points fmt g c j i) [0..<ny]) [0..<nx]
                     (put4 g ?h ?h ?h ?h w)"
    by (simp only: thn_def headers_put4 prod.case sum.case append_Nil)
  also have "\<dots> = (Inr (), put4 g (xy_text fmt (x_axis c) (y_axis c) (vx c) nx ny)
                           (xy_text fmt (x_axis c) (y_axis c) (vy c) nx ny)
                           (xy_text fmt (x_axis c) (y_axis c) (ex c) nx ny)
                           (xy_text fmt (x_axis c) (y_axis c) (ey c) nx ny) w)"
    using assms(2) by (simp add: outer_loop_put4 [where nx = nx] xy_text_def concat_point_lines)
  finally show ?thesis .
qed

lemma point_lines_Suc:
  "point_lines fmt xa ya f (Suc nx) ny =
     point_lines fmt xa ya f nx ny @ map (point_line fmt xa ya f nx) [0..<ny]"
  by (simp add: point_lines_def)

lemma length_point_lines: "length (point_lines fmt xa ya f nx ny) = nx * ny"
  by (induction nx) (simp_all add: point_lines_Suc, simp add: point_lines_def)

lemma nth_point_lines:
  assumes "j < nx" "i < ny"
  shows "point_lines fmt xa ya f nx ny ! (j * ny + i) = point_line fmt xa ya f j i"
  using assms(1)
proof (induction nx)
  case 0
  then show ?case by simp
next
  case (Suc n)
  show ?case
  proof (cases "j < n")
    case True
    have "j * ny + i < Suc j * ny"
      using assms(2) by simp
    also have "\<dots> \<le> n * ny"
      using True by (intro mult_le_mono1) simp
    finally have "j * ny + i < length (point_lines fmt xa ya f n ny)"
      by (simp add: length_point_lines)
    then show ?thesis
      using Suc.IH True by (simp add: point_lines_Suc nth_append)
  next
    case False
    then have "j = n"
      using Suc.prems by simp
    then show ?thesis
      using assms(2) by (simp add: point_lines_Suc nth_append length_point_lines)
  qed
qed

lemma is_array2_covers:
  assumes "is_array2 ny nx f" "length xa = nx" "length ya = ny"
  shows "covers nx ny xa ya f"
  using assms by (simp add: covers_def is_array2_def list_all_length)

lemma crop_axes:
  assumes "in_range b ny nx" "ny \<le> length ya" "nx \<le> length xa"
  shows "length (py_slice (jmin b) (jmax b + 1) xa) = nat (box_nx b)"
    and "length (py_slice (imin b) (imax b + 1) ya) = nat (box_ny b)"
  using assms by (simp_all add: in_range_def length_py_slice box_nx_def box_ny_def)

lemma crop_covers_all:
  assumes "in_range b nyx nxx" "nxx \<le> length (x_axis g)" "nyx \<le> length (y_axis g)"
    and "is_array2 ny1 nx1 (vx g)" "in_range b ny1 nx1"
    and "is_array2 ny2 nx2 (vy g)" "in_range b ny2 nx2"
    and "is_array2 ny3 nx3 (ex g)" "in_range b ny3 nx3"
    and "is_array2 ny4 nx4 (ey g)" "in_range b ny4 nx4"
  shows "covers_all (nat (box_nx b)) (nat (box_ny b)) (crop b g)"
  using assms
  by (simp add: covers_all_def crop_def is_array2_covers crop_field_array2 crop_axes)

lemma nat_sizes:
  assumes "in_range b ny nx"
  shows "int (nat (box_nx b)) = box_nx b" "int (nat (box_ny b)) = box_ny b"
  using assms by (simp_all add: in_range_def box_nx_def box_ny_def)

lemma crop_write_general:
  assumes "can_open gl w"
    and "in_range b nyx nxx" "nxx \<le> length (x_axis g)" "nyx \<le> length (y_axis g)"
    and "is_array2 ny1 nx1 (vx g)" "in_range b ny1 nx1"
    and "is_array2 ny2 nx2 (vy g)" "in_range b ny2 nx2"
    and "is_array2 ny3 nx3 (ex g)" "in_range b ny3 nx3"
    and "is_array2 ny4 nx4 (ey g)" "in_range b ny4 nx4"
  shows "write_velocity fmt gl (crop b g) (box_nx b) (box_ny b) w =
           (Inr (),
            put4 gl
              (xy_text fmt (x_axis (crop b g)) (y_axis (crop b g)) (vx (crop b g))
                 (nat (box_nx b)) (nat (box_ny b)))
              (xy_text fmt (x_axis (crop b g)) (y_axis (crop b g)) (vy (crop b g))
                 (nat (box_nx b)) (nat (box_ny b)))
              (xy_text fmt (x_axis (crop b g)) (y_axis (crop b g)) (ex (crop b g))
                 (nat (box_nx b)) (nat (box_ny b)))
              (xy_text fmt (x_axis (crop b g)) (y_axis (crop b g)) (ey (crop b g))
                 (nat (box_nx b)) (nat (box_ny b))) w)"
proof -
  have "covers_all (nat (box_nx b)) (nat (box_ny b)) (crop b g)"
    using assms(2-) by (rule crop_covers_all)
  from write_velocity_covers [OF assms(1) this, of fmt] show ?thesis
    by (simp only: nat_sizes [OF assms(2)])
qed

lemma find_measured_block:
  "find_measured block_field = Inr \<lparr>imin = - 1, imax = 4, jmin = - 1, jmax = 4\<rparr>"
  by (simp add: find_measured_def detect_def np_where_ne_def block_field_def missing_def
      upt_rec_numeral)

lemma crop_block:
  "crop \<lparr>imin = - 1, imax = 4, jmin = - 1, jmax = 4\<rparr> block_grid =
     \<lparr>x_axis = [14], y_axis = [24], vx = [[missing]], vy = [[missing]],
      ex = [[missing]], ey = [[missing]]\<rparr>"
  by (simp add: crop_def crop_field_def py_slice_def slice_bound_def block_grid_def
      block_field_def)

lemma can_open_example: "can_open ''helheim'' example_world"
  by (simp add: can_open_def example_world_def)

lemma write_points_row_missing:
  assumes "length (y_axis c) \<le> i" "j < length (x_axis c)"
  shows "write_points fmt gl c j i w = (Inl IndexError, w)"
  using assms
  by (simp add: write_points_def write_point_def thn_def fmt_point_def index1_def)

lemma wrapped_write:
  assumes "can_open gl w"
  shows "write_velocity fmt gl
           \<lparr>x_axis = [14], y_axis = [24], vx = [[missing]], vy = [[missing]],
            ex = [[missing]], ey = [[missing]]\<rparr> 6 6 w =
         (Inl IndexError,
          put4 gl
            (''6\<newline>6\<newline>'' @ fmt 14 @ '' '' @ fmt 24 @ '' '' @ fmt missing @ ''\<newline>'')
            (''6\<newline>6\<newline>'' @ fmt 14 @ '' '' @ fmt 24 @ '' '' @ fmt missing @ ''\<newline>'')
            (''6\<newline>6\<newline>'' @ fmt 14 @ '' '' @ fmt 24 @ '' '' @ fmt missing @ ''\<newline>'')
            (''6\<newline>6\<newline>'' @ fmt 14 @ '' '' @ fmt 24 @ '' '' @ fmt missing @ ''\<newline>'') w)"
proof -
  let ?c = "\<lparr>x_axis = [14], y_axis = [24], vx = [[missing]], vy = [[missing]],
             ex = [[missing]], ey = [[missing]]\<rparr>"
  let ?h = "str_int 6 @ ''\<newline>'' @ str_int 6 @ ''\<newline>''"
  have cov: "covers_all 1 1 ?c"
    by (simp add: covers_all_def covers_def)
  have "write_velocity fmt gl ?c 6 6 w =
          thn (for_each (\<lambda>p. py_write p ?h)
                 [gl @ ''/UDEM.xy'', gl @ ''/VDEM.xy'', gl @ ''/EUDEM.xy'', gl @ ''/EVDEM.xy''])
              (\<lambda>_. for_each (\<lambda>j. for_each (\<lambda>i. write_points fmt gl ?c j i) [0..<nat 6])
                      [0..<nat 6])
              (put4 gl [] [] [] [] w)"
    unfolding write_velocity_def using assms by (simp only: open_all)
  also have "\<dots> = for_each (\<lambda>j. for_each (\<lambda>i. write_points fmt gl ?c j i) [0..<nat 6])
                      [0..<nat 6] (put4 gl ?h ?h ?h ?h w)"
    by (simp only: thn_def headers_put4 prod.case sum.case append_Nil)
  also have "\<dots> = (Inl IndexError,
          put4 gl (?h @ point_line fmt [14] [24] [[missing]] 0 0)
                  (?h @ point_line fmt [14] [24] [[missing]] 0 0)
                  (?h @ point_line fmt [14] [24] [[missing]] 0 0)
                  (?h @ point_line fmt [14] [24] [[missing]] 0 0) w)"
    using write_points_put4 [OF cov, of 0 0 fmt gl ?h ?h ?h ?h w]
    by (simp add: upt_conv_Cons write_points_row_missing)
  finally show ?thesis
    by (simp add: point_line_def axis_text_def str_int_def digit_char_def)
qed

lemma in_range_block_tight: "in_range \<lparr>imin = 1, imax = 2, jmin = 1, jmax = 2\<rparr> 5 5"
  by (simp add: in_range_def)

lemma find_measured_centre:
  "find_measured centre_field = Inr \<lparr>imin = 0, imax = 4, jmin = 0, jmax = 4\<rparr>"
  by (simp add: find_measured_def detect_def np_where_ne_def centre_field_def missing_def
      upt_rec_numeral)

lemma in_range_full: "in_range \<lparr>imin = 0, imax = 4, jmin = 0, jmax = 4\<rparr> 5 5"
  "in_range \<lparr>imin = 0, imax = 4, jmin = 0, jmax = 4\<rparr> 6 6"
  by (simp_all add: in_range_def)

lemma mismatched_shapes:
  "is_array2 5 5 (vx mismatched_grid)" "is_array2 6 6 (vy mismatched_grid)"
  "is_array2 5 5 (ex mismatched_grid)" "is_array2 5 5 (ey mismatched_grid)"
  by (simp_all add: mismatched_grid_def centre_field_def is_array2_def list_all_iff)

lemma crop_measured_block:
  "crop_measured block_grid =
     Inr (\<lparr>imin = - 1, imax = 4, jmin = - 1, jmax = 4\<rparr>,
          \<lparr>x_axis = [14], y_axis = [24], vx = [[missing]], vy = [[missing]],
           ex = [[missing]], ey = [[missing]]\<rparr>)"
  using find_measured_block crop_block by (simp add: crop_measured_def block_grid_def)

lemma find_measured_fields:
  assumes "find_measured f = Inr b"
  shows "valid_cells f missing \<noteq> {}
       \<and> imin b = Min (valid_rows f missing) - 2 \<and> imax b = Max (valid_rows f missing) + 2
       \<and> jmin b = Min (valid_cols f missing) - 2 \<and> jmax b = Max (valid_cols f missing) + 2"
proof (cases "valid_cells f missing = {}")
  case True
  then show ?thesis
    using assms detect_empty [of f missing 2] by (simp add: find_measured_def)
next
  case False
  then show ?thesis
    using assms detect_nonempty [of f missing 2] by (auto simp: find_measured_def)
qed





lemma outputs_exist_dir:
  assumes "outputs_exist glacier w" "wf_world w" "glacier \<noteq> []"
  shows "path_exists glacier w"
proof -
  from assms(1) obtain p where p: "path_exists p w" "dirname p = glacier"
    unfolding outputs_exist_def using dirname_outputs [of glacier] by metis
  then have "files w glacier = Some Dir"
    using assms(2,3) unfolding wf_world_def by metis
  then show ?thesis
    by (simp add: path_exists_def)
qed


lemma wf_done_world: "wf_world done_world"
  by (auto simp: wf_world_def path_exists_def done_world_def dirname_def split: if_splits)

section \<open>The bounding box\<close>

text \<open>
  C1. For a field with at least one cell that differs from the missing-data value,
  detection with margin \<open>m\<close> returns the box whose bounds are the least row index minus
  \<open>m\<close>, the greatest row index plus \<open>m\<close>, and the same for the columns, where the
  indices range over the cells that differ from the missing-data value. Nothing is
  clamped: every such cell lies inside the box shrunk by \<open>m\<close>, and each shrunk bound is
  the index of such a cell. The source runs this with \<open>m = 2\<close> (\<open>find_measured\<close>).
\<close>

theorem detect_margin_box:
  assumes "is_array2 ny nx f" and "\<exists>i<ny. \<exists>j<nx. f ! i ! j \<noteq> s"
  shows "detect m s f =
           Inr \<lparr>imin = Min (valid_rows f s) - m, imax = Max (valid_rows f s) + m,
                jmin = Min (valid_cols f s) - m, jmax = Max (valid_cols f s) + m\<rparr>
         \<and> (\<forall>p \<in> valid_cells f s.
               Min (valid_rows f s) \<le> int (fst p) \<and> int (fst p) \<le> Max (valid_rows f s) \<and>
               Min (valid_cols f s) \<le> int (snd p) \<and> int (snd p) \<le> Max (valid_cols f s))
         \<and> Min (valid_rows f s) \<in> valid_rows f s \<and> Max (valid_rows f s) \<in> valid_rows f s
         \<and> Min (valid_cols f s) \<in> valid_cols f s \<and> Max (valid_cols f s) \<in> valid_cols f s"
proof -
  from assms obtain i j where "i < ny" "j < nx" "f ! i ! j \<noteq> s"
    by blast
  then have "(i, j) \<in> valid_cells f s"
    using assms(1) by (simp add: valid_cells_array2)
  then have ne: "valid_cells f s \<noteq> {}"
    by blast
  then have rows: "valid_rows f s \<noteq> {}" and cols: "valid_cols f s \<noteq> {}"
    by (simp_all add: valid_rows_def valid_cols_def)
  have box: "detect m s f =
           Inr \<lparr>imin = Min (valid_rows f s) - m, imax = Max (valid_rows f s) + m,
                jmin = Min (valid_cols f s) - m, jmax = Max (valid_cols f s) + m\<rparr>"
    using ne by (rule detect_nonempty)
  have inside: "Min (valid_rows f s) \<le> int (fst p) \<and> int (fst p) \<le> Max (valid_rows f s) \<and>
                Min (valid_cols f s) \<le> int (snd p) \<and> int (snd p) \<le> Max (valid_cols f s)"
    if "p \<in> valid_cells f s" for p
  proof -
    have "int (fst p) \<in> valid_rows f s" "int (snd p) \<in> valid_cols f s"
      using that by (simp_all add: valid_rows_def valid_cols_def)
    then show ?thesis
      by (simp add: finite_valid_rows finite_valid_cols)
  qed
  show ?thesis
    using box inside rows cols
    by (simp add: finite_valid_rows finite_valid_cols)
qed

theorem detect_margin_box_witness:
  "is_array2 5 5 block_field \<and> (\<exists>i<5. \<exists>j<5. block_field ! i ! j \<noteq> missing) \<and>
   detect 2 missing block_field =
     Inr \<lparr>imin = Min (valid_rows block_field missing) - 2,
          imax = Max (valid_rows block_field missing) + 2,
          jmin = Min (valid_cols block_field missing) - 2,
          jmax = Max (valid_cols block_field missing) + 2\<rparr>"
proof -
  have a: "is_array2 5 5 block_field"
    by (simp add: is_array2_def block_field_def)
  have "block_field ! 1 ! 1 \<noteq> missing"
    by (simp add: block_field_def missing_def)
  then have "(1::nat) < 5 \<and> (\<exists>j<5. block_field ! 1 ! j \<noteq> missing)"
    by (intro conjI exI [of _ 1]) simp_all
  then have b: "\<exists>i<5. \<exists>j<5. block_field ! i ! j \<noteq> missing"
    by (rule exI)
  show ?thesis
    using a b detect_margin_box [OF a b, of 2] by simp
qed

text \<open>
  C5. For a field all of whose cells equal the missing-data value, detection returns no
  box: \<open>min\<close> is applied to an empty sequence of row indices and raises.
\<close>

theorem detect_all_missing:
  assumes "is_array2 ny nx f" and "\<forall>i<ny. \<forall>j<nx. f ! i ! j = s"
  shows "detect m s f = Inl (ValueError ''min() arg is an empty sequence'')"
proof -
  have "valid_cells f s = {}"
    using assms by (auto simp: valid_cells_array2)
  then show ?thesis
    by (rule detect_empty)
qed

theorem detect_all_missing_witness:
  "is_array2 2 3 (replicate 2 (replicate 3 missing)) \<and>
   find_measured (replicate 2 (replicate 3 missing)) =
     Inl (ValueError ''min() arg is an empty sequence'')"
proof -
  have a: "is_array2 2 3 (replicate 2 (replicate 3 missing))"
    by (simp add: is_array2_def list_all_length)
  have b: "\<forall>i<2. \<forall>j<3. replicate 2 (replicate 3 missing) ! i ! j = missing"
    by simp
  show ?thesis
    unfolding find_measured_def
    using a b detect_all_missing [OF a b, of 2] by simp
qed

section \<open>The point-list files\<close>

text \<open>
  C3. For axes of lengths \<open>nx\<close> and \<open>ny\<close> and fields of shape \<open>(ny, nx)\<close>, writing gives
  each of the four files the text of \<open>nx\<close>, a newline, the text of \<open>ny\<close>, a newline, and
  then \<open>nx * ny\<close> lines, columns outermost: line \<open>j * ny + i\<close> holds \<open>x[j]\<close>, \<open>y[i]\<close> and
  \<open>field[i][j]\<close>, each in the float-to-text conversion, with single spaces between them.
\<close>

theorem export_point_list:
  assumes "can_open g w"
    and "length (x_axis c) = nx" and "length (y_axis c) = ny"
    and "is_array2 ny nx (vx c)" and "is_array2 ny nx (vy c)"
    and "is_array2 ny nx (ex c)" and "is_array2 ny nx (ey c)"
  shows "write_velocity fmt g c (int nx) (int ny) w =
           (Inr (), put4 g (xy_text fmt (x_axis c) (y_axis c) (vx c) nx ny)
                           (xy_text fmt (x_axis c) (y_axis c) (vy c) nx ny)
                           (xy_text fmt (x_axis c) (y_axis c) (ex c) nx ny)
                           (xy_text fmt (x_axis c) (y_axis c) (ey c) nx ny) w)
         \<and> xy_text fmt xa ya f nx ny =
             str_int (int nx) @ ''\<newline>'' @ str_int (int ny) @ ''\<newline>'' @
             concat (point_lines fmt xa ya f nx ny)
         \<and> length (point_lines fmt xa ya f nx ny) = nx * ny
         \<and> (\<forall>j<nx. \<forall>i<ny.
               point_lines fmt xa ya f nx ny ! (j * ny + i) =
                 fmt (xa ! j) @ '' '' @ fmt (ya ! i) @ '' '' @ fmt (f ! i ! j) @ ''\<newline>'')"
proof -
  have "covers_all nx ny c"
    using assms(2-) by (simp add: covers_all_def is_array2_covers)
  then have "write_velocity fmt g c (int nx) (int ny) w =
           (Inr (), put4 g (xy_text fmt (x_axis c) (y_axis c) (vx c) nx ny)
                           (xy_text fmt (x_axis c) (y_axis c) (vy c) nx ny)
                           (xy_text fmt (x_axis c) (y_axis c) (ex c) nx ny)
                           (xy_text fmt (x_axis c) (y_axis c) (ey c) nx ny) w)"
    using assms(1) by (simp add: write_velocity_covers)
  moreover have "\<forall>j<nx. \<forall>i<ny.
               point_lines fmt xa ya f nx ny ! (j * ny + i) =
                 fmt (xa ! j) @ '' '' @ fmt (ya ! i) @ '' '' @ fmt (f ! i ! j) @ ''\<newline>''"
    by (simp add: nth_point_lines point_line_def axis_text_def)
  ultimately show ?thesis
    by (simp add: xy_text_def length_point_lines)
qed

theorem export_point_list_witness:
  "write_velocity str_floor ''helheim'' small_grid 2 3 example_world =
     (Inr (),
      put4 ''helheim''
        ''2\<newline>3\<newline>10 20 1\<newline>10 21 3\<newline>10 22 5\<newline>11 20 2\<newline>11 21 4\<newline>11 22 6\<newline>''
        ''2\<newline>3\<newline>10 20 7\<newline>10 21 9\<newline>10 22 11\<newline>11 20 8\<newline>11 21 10\<newline>11 22 12\<newline>''
        ''2\<newline>3\<newline>10 20 0\<newline>10 21 0\<newline>10 22 0\<newline>11 20 0\<newline>11 21 0\<newline>11 22 0\<newline>''
        ''2\<newline>3\<newline>10 20 1\<newline>10 21 1\<newline>10 22 1\<newline>11 20 1\<newline>11 21 1\<newline>11 22 1\<newline>''
        example_world)"
proof -
  have a: "length (x_axis small_grid) = 2" "length (y_axis small_grid) = 3"
    by (simp_all add: small_grid_def)
  have b: "is_array2 3 2 (vx small_grid)" "is_array2 3 2 (vy small_grid)"
    "is_array2 3 2 (ex small_grid)" "is_array2 3 2 (ey small_grid)"
    by (simp_all add: small_grid_def is_array2_def)
  have "write_velocity str_floor ''helheim'' small_grid (int 2) (int 3) example_world =
     (Inr (),
      put4 ''helheim''
        (xy_text str_floor (x_axis small_grid) (y_axis small_grid) (vx small_grid) 2 3)
        (xy_text str_floor (x_axis small_grid) (y_axis small_grid) (vy small_grid) 2 3)
        (xy_text str_floor (x_axis small_grid) (y_axis small_grid) (ex small_grid) 2 3)
        (xy_text str_floor (x_axis small_grid) (y_axis small_grid) (ey small_grid) 2 3)
        example_world)"
    using export_point_list [OF can_open_example a b] by blast
  then show ?thesis
    by (simp add: xy_text_def point_lines_def point_line_def axis_text_def small_grid_def
        str_floor_def str_int_def digit_char_def upt_conv_Cons)
qed

text \<open>
  C4. When the four fields share the shape \<open>(ny, nx)\<close> of the axes and the box lies inside
  it, every cropped field has the shape \<open>(imax - imin + 1, jmax - jmin + 1)\<close>, the cropped
  \<open>y\<close> axis has as many values as there are rows and the cropped \<open>x\<close> axis as many as
  there are columns, and the four files are written from the same two counts and the same
  axes: in every file, line \<open>j * ny + i\<close> begins with the same text of \<open>x[j]\<close> and \<open>y[i]\<close>.
\<close>

theorem crop_same_shape_and_axes:
  assumes "length (x_axis g) = nx" and "length (y_axis g) = ny"
    and "is_array2 ny nx (vx g)" and "is_array2 ny nx (vy g)"
    and "is_array2 ny nx (ex g)" and "is_array2 ny nx (ey g)"
    and "in_range b ny nx" and "can_open gl w"
  shows "is_array2 (nat (box_ny b)) (nat (box_nx b)) (vx (crop b g))
       \<and> is_array2 (nat (box_ny b)) (nat (box_nx b)) (vy (crop b g))
       \<and> is_array2 (nat (box_ny b)) (nat (box_nx b)) (ex (crop b g))
       \<and> is_array2 (nat (box_ny b)) (nat (box_nx b)) (ey (crop b g))
       \<and> int (nat (box_ny b)) = imax b - imin b + 1
       \<and> int (nat (box_nx b)) = jmax b - jmin b + 1
       \<and> length (y_axis (crop b g)) = nat (box_ny b)
       \<and> length (x_axis (crop b g)) = nat (box_nx b)
       \<and> write_velocity fmt gl (crop b g) (box_nx b) (box_ny b) w =
           (Inr (),
            put4 gl
              (xy_text fmt (x_axis (crop b g)) (y_axis (crop b g)) (vx (crop b g))
                 (nat (box_nx b)) (nat (box_ny b)))
              (xy_text fmt (x_axis (crop b g)) (y_axis (crop b g)) (vy (crop b g))
                 (nat (box_nx b)) (nat (box_ny b)))
              (xy_text fmt (x_axis (crop b g)) (y_axis (crop b g)) (ex (crop b g))
                 (nat (box_nx b)) (nat (box_ny b)))
              (xy_text fmt (x_axis (crop b g)) (y_axis (crop b g)) (ey (crop b g))
                 (nat (box_nx b)) (nat (box_ny b))) w)
       \<and> (\<forall>j < nat (box_nx b). \<forall>i < nat (box_ny b).
             point_lines fmt (x_axis (crop b g)) (y_axis (crop b g)) f
                 (nat (box_nx b)) (nat (box_ny b)) ! (j * nat (box_ny b) + i) =
               axis_text fmt (x_axis (crop b g)) (y_axis (crop b g)) j i @
               fmt (f ! i ! j) @ ''\<newline>'')"
proof -
  have shapes:
    "is_array2 (nat (box_ny b)) (nat (box_nx b)) (vx (crop b g))"
    "is_array2 (nat (box_ny b)) (nat (box_nx b)) (vy (crop b g))"
    "is_array2 (nat (box_ny b)) (nat (box_nx b)) (ex (crop b g))"
    "is_array2 (nat (box_ny b)) (nat (box_nx b)) (ey (crop b g))"
    using assms(3-7) by (simp_all add: crop_def crop_field_array2)
  have sizes: "int (nat (box_ny b)) = imax b - imin b + 1"
    "int (nat (box_nx b)) = jmax b - jmin b + 1"
    using assms(7) by (simp_all add: in_range_def box_nx_def box_ny_def)
  have axes: "length (y_axis (crop b g)) = nat (box_ny b)"
    "length (x_axis (crop b g)) = nat (box_nx b)"
    using crop_axes [OF assms(7), of "y_axis g" "x_axis g"] assms(1,2)
    by (simp_all add: crop_def)
  have files: "write_velocity fmt gl (crop b g) (box_nx b) (box_ny b) w =
           (Inr (),
            put4 gl
              (xy_text fmt (x_axis (crop b g)) (y_axis (crop b g)) (vx (crop b g))
                 (nat (box_nx b)) (nat (box_ny b)))
              (xy_text fmt (x_axis (crop b g)) (y_axis (crop b g)) (vy (crop b g))
                 (nat (box_nx b)) (nat (box_ny b)))
              (xy_text fmt (x_axis (crop b g)) (y_axis (crop b g)) (ex (crop b g))
                 (nat (box_nx b)) (nat (box_ny b)))
              (xy_text fmt (x_axis (crop b g)) (y_axis (crop b g)) (ey (crop b g))
                 (nat (box_nx b)) (nat (box_ny b))) w)"
    using assms by (intro crop_write_general [where nxx = nx and nyx = ny]) simp_all
  have lines: "\<forall>j < nat (box_nx b). \<forall>i < nat (box_ny b).
             point_lines fmt (x_axis (crop b g)) (y_axis (crop b g)) f
                 (nat (box_nx b)) (nat (box_ny b)) ! (j * nat (box_ny b) + i) =
               axis_text fmt (x_axis (crop b g)) (y_axis (crop b g)) j i @
               fmt (f ! i ! j) @ ''\<newline>''"
    by (simp add: nth_point_lines point_line_def)
  show ?thesis
    using shapes sizes axes files lines by blast
qed

theorem crop_same_shape_and_axes_witness:
  "is_array2 2 2 (vx (crop \<lparr>imin = 1, imax = 2, jmin = 1, jmax = 2\<rparr> block_grid)) \<and>
   is_array2 2 2 (ey (crop \<lparr>imin = 1, imax = 2, jmin = 1, jmax = 2\<rparr> block_grid)) \<and>
   x_axis (crop \<lparr>imin = 1, imax = 2, jmin = 1, jmax = 2\<rparr> block_grid) = [11, 12] \<and>
   y_axis (crop \<lparr>imin = 1, imax = 2, jmin = 1, jmax = 2\<rparr> block_grid) = [21, 22] \<and>
   fst (write_velocity str_floor ''helheim''
          (crop \<lparr>imin = 1, imax = 2, jmin = 1, jmax = 2\<rparr> block_grid) 2 2 example_world) =
     Inr ()"
proof -
  let ?b = "\<lparr>imin = 1, imax = 2, jmin = 1, jmax = 2\<rparr>"
  have a: "length (x_axis block_grid) = 5" "length (y_axis block_grid) = 5"
    by (simp_all add: block_grid_def)
  have f: "is_array2 5 5 (vx block_grid)" "is_array2 5 5 (vy block_grid)"
    "is_array2 5 5 (ex block_grid)" "is_array2 5 5 (ey block_grid)"
    by (simp_all add: block_grid_def block_field_def is_array2_def)
  have n: "box_nx ?b = 2" "box_ny ?b = 2"
    by (simp_all add: box_nx_def box_ny_def)
  have x: "x_axis (crop ?b block_grid) = [11, 12]" "y_axis (crop ?b block_grid) = [21, 22]"
    by (simp_all add: crop_def py_slice_def slice_bound_def block_grid_def)
  show ?thesis
    using crop_same_shape_and_axes [OF a f in_range_block_tight can_open_example, of str_floor] n x
    by simp
qed

section \<open>Fields of different shapes\<close>

text \<open>
  C6, as stated: cropping fails when the fields do not share a shape. It does not: with
  \<open>vx\<close> of five by five and \<open>vy\<close> of six by six, detection and cropping return a box and
  the cropped fields.
\<close>

theorem crop_mismatched_counterexample:
  "is_array2 5 5 (vx mismatched_grid) \<and> is_array2 6 6 (vy mismatched_grid) \<and>
   crop_measured mismatched_grid =
     Inr (\<lparr>imin = 0, imax = 4, jmin = 0, jmax = 4\<rparr>,
          \<lparr>x_axis = [10, 11, 12, 13, 14], y_axis = [20, 21, 22, 23, 24],
           vx = centre_field, vy = replicate 5 (replicate 5 5),
           ex = centre_field, ey = centre_field\<rparr>)"
proof -
  have "crop \<lparr>imin = 0, imax = 4, jmin = 0, jmax = 4\<rparr> mismatched_grid =
          \<lparr>x_axis = [10, 11, 12, 13, 14], y_axis = [20, 21, 22, 23, 24],
           vx = centre_field, vy = replicate 5 (replicate 5 5),
           ex = centre_field, ey = centre_field\<rparr>"
    by (simp add: crop_def crop_field_def py_slice_def slice_bound_def mismatched_grid_def
        centre_field_def)
  then show ?thesis
    using find_measured_centre mismatched_shapes
    by (simp add: crop_measured_def mismatched_grid_def)
qed

text \<open>
  C6, amended. Cropping compares no shapes and slices each field on its own. Whenever the
  box lies inside the axes and inside every field, whatever the shapes of the fields,
  all four cropped fields have the shape \<open>(imax - imin + 1, jmax - jmin + 1)\<close> and the four
  files are written without an exception.
\<close>

theorem crop_without_shape_check:
  assumes "can_open gl w"
    and "in_range b (length (y_axis g)) (length (x_axis g))"
    and "is_array2 ny1 nx1 (vx g)" and "in_range b ny1 nx1"
    and "is_array2 ny2 nx2 (vy g)" and "in_range b ny2 nx2"
    and "is_array2 ny3 nx3 (ex g)" and "in_range b ny3 nx3"
    and "is_array2 ny4 nx4 (ey g)" and "in_range b ny4 nx4"
  shows "is_array2 (nat (box_ny b)) (nat (box_nx b)) (vx (crop b g))
       \<and> is_array2 (nat (box_ny b)) (nat (box_nx b)) (vy (crop b g))
       \<and> is_array2 (nat (box_ny b)) (nat (box_nx b)) (ex (crop b g))
       \<and> is_array2 (nat (box_ny b)) (nat (box_nx b)) (ey (crop b g))
       \<and> write_velocity fmt gl (crop b g) (box_nx b) (box_ny b) w =
           (Inr (),
            put4 gl
              (xy_text fmt (x_axis (crop b g)) (y_axis (crop b g)) (vx (crop b g))
                 (nat (box_nx b)) (nat (box_ny b)))
              (xy_text fmt (x_axis (crop b g)) (y_axis (crop b g)) (vy (crop b g))
                 (nat (box_nx b)) (nat (box_ny b)))
              (xy_text fmt (x_axis (crop b g)) (y_axis (crop b g)) (ex (crop b g))
                 (nat (box_nx b)) (nat (box_ny b)))
              (xy_text fmt (x_axis (crop b g)) (y_axis (crop b g)) (ey (crop b g))
                 (nat (box_nx b)) (nat (box_ny b))) w)"
proof -
  have shapes:
    "is_array2 (nat (box_ny b)) (nat (box_nx b)) (vx (crop b g))"
    "is_array2 (nat (box_ny b)) (nat (box_nx b)) (vy (crop b g))"
    "is_array2 (nat (box_ny b)) (nat (box_nx b)) (ex (crop b g))"
    "is_array2 (nat (box_ny b)) (nat (box_nx b)) (ey (crop b g))"
    using assms(3-) by (simp_all add: crop_def crop_field_array2)
  have files: "write_velocity fmt gl (crop b g) (box_nx b) (box_ny b) w =
           (Inr (),
            put4 gl
              (xy_text fmt (x_axis (crop b g)) (y_axis (crop b g)) (vx (crop b g))
                 (nat (box_nx b)) (nat (box_ny b)))
              (xy_text fmt (x_axis (crop b g)) (y_axis (crop b g)) (vy (crop b g))
                 (nat (box_nx b)) (nat (box_ny b)))
              (xy_text fmt (x_axis (crop b g)) (y_axis (crop b g)) (ex (crop b g))
                 (nat (box_nx b)) (nat (box_ny b)))
              (xy_text fmt (x_axis (crop b g)) (y_axis (crop b g)) (ey (crop b g))
                 (nat (box_nx b)) (nat (box_ny b))) w)"
    by (rule crop_write_general [OF assms(1,2) le_refl le_refl assms(3-)])
  show ?thesis
    using shapes files by blast
qed

theorem crop_without_shape_check_witness:
  "is_array2 5 5 (vx mismatched_grid) \<and> is_array2 6 6 (vy mismatched_grid) \<and>
   is_array2 5 5 (vx (crop \<lparr>imin = 0, imax = 4, jmin = 0, jmax = 4\<rparr> mismatched_grid)) \<and>
   is_array2 5 5 (vy (crop \<lparr>imin = 0, imax = 4, jmin = 0, jmax = 4\<rparr> mismatched_grid)) \<and>
   fst (write_velocity str_floor ''helheim''
          (crop \<lparr>imin = 0, imax = 4, jmin = 0, jmax = 4\<rparr> mismatched_grid) 5 5
          example_world) = Inr ()"
proof -
  let ?b = "\<lparr>imin = 0, imax = 4, jmin = 0, jmax = 4\<rparr>"
  have a: "in_range ?b (length (y_axis mismatched_grid)) (length (x_axis mismatched_grid))"
    by (simp add: in_range_def mismatched_grid_def)
  have n: "box_nx ?b = 5" "box_ny ?b = 5"
    by (simp_all add: box_nx_def box_ny_def)
  show ?thesis
    using crop_without_shape_check [OF can_open_example a
        mismatched_shapes(1) in_range_full(1) mismatched_shapes(2) in_range_full(2)
        mismatched_shapes(3) in_range_full(1) mismatched_shapes(4) in_range_full(1),
        of str_floor] n mismatched_shapes
    by simp
qed

section \<open>A box that leaves the array\<close>

text \<open>
  C2, as stated: for five rows and five columns with measured cells only at rows 1-2 and
  columns 1-2, the box is \<open>(-1, 4, -1, 4)\<close> and cropping with it raises. The box is as
  stated, but cropping does not raise: the start \<open>-1\<close> of each slice counts from the end,
  and what comes back is the last row and the last column alone.
\<close>

theorem crop_block_counterexample:
  "crop_measured block_grid =
     Inr (\<lparr>imin = - 1, imax = 4, jmin = - 1, jmax = 4\<rparr>,
          \<lparr>x_axis = [14], y_axis = [24], vx = [[missing]], vy = [[missing]],
           ex = [[missing]], ey = [[missing]]\<rparr>)"
  by (rule crop_measured_block)

text \<open>
  C2, amended. For that array the box is \<open>(-1, 4, -1, 4)\<close>. Cropping with it returns
  fields of one row and one column and axes of one value, while \<open>nx = ny = 6\<close>. The run
  then opens the four files, writes the two counts and one line to each, and raises
  IndexError at \<open>y[1]\<close>.
\<close>

theorem block_example_fails_in_export:
  assumes "can_open gl w"
  shows "find_measured block_field = Inr \<lparr>imin = - 1, imax = 4, jmin = - 1, jmax = 4\<rparr>
       \<and> process_velocity fmt gl block_grid w =
           (Inl IndexError,
            put4 gl
              (''6\<newline>6\<newline>'' @ fmt 14 @ '' '' @ fmt 24 @ '' '' @ fmt missing @ ''\<newline>'')
              (''6\<newline>6\<newline>'' @ fmt 14 @ '' '' @ fmt 24 @ '' '' @ fmt missing @ ''\<newline>'')
              (''6\<newline>6\<newline>'' @ fmt 14 @ '' '' @ fmt 24 @ '' '' @ fmt missing @ ''\<newline>'')
              (''6\<newline>6\<newline>'' @ fmt 14 @ '' '' @ fmt 24 @ '' '' @ fmt missing @ ''\<newline>'') w)"
proof -
  have "process_velocity fmt gl block_grid w =
          write_velocity fmt gl
            \<lparr>x_axis = [14], y_axis = [24], vx = [[missing]], vy = [[missing]],
             ex = [[missing]], ey = [[missing]]\<rparr> 6 6 w"
    by (simp add: process_velocity_def thn_def crop_measured_block box_nx_def box_ny_def)
  then show ?thesis
    using wrapped_write [OF assms, of fmt] find_measured_block by simp
qed

theorem block_example_fails_in_export_witness:
  "process_velocity str_floor ''helheim'' block_grid example_world =
     (Inl IndexError,
      put4 ''helheim'' ''6\<newline>6\<newline>14 24 -2000000000\<newline>'' ''6\<newline>6\<newline>14 24 -2000000000\<newline>''
        ''6\<newline>6\<newline>14 24 -2000000000\<newline>'' ''6\<newline>6\<newline>14 24 -2000000000\<newline>'' example_world)"
  using block_example_fails_in_export [OF can_open_example, of str_floor]
  by (simp add: str_floor_def str_int_def digit_char_def missing_def)

section \<open>Cropping and detecting again\<close>




section \<open>Files that are already there\<close>

text \<open>
  C7. When the output files of a glacier exist (the source asks whether any one of the
  four does), the step for that glacier prints its message and does nothing else: the
  files are as they were, nothing is read, and the result does not depend on the reader,
  which may fail on every file.
\<close>

theorem skip_when_outputs_exist:
  assumes "outputs_exist glacier w" and "wf_world w" and "glacier \<noteq> []"
  shows "make_velocity fmt rd glacier w =
           (Inr (), w\<lparr>stdout := stdout w @ [''Done making velocity data for '' @ glacier]\<rparr>)"
  using assms(1) outputs_exist_dir [OF assms]
  by (simp add: make_velocity_def thn_def py_print_def)


theorem skip_when_outputs_exist_witness:
  "outputs_exist ''helheim'' done_world \<and>
   make_velocity str_floor no_reader ''helheim'' done_world =
     (Inr (), done_world\<lparr>stdout := [''Done making velocity data for helheim'']\<rparr>)"
proof -
  have a: "outputs_exist ''helheim'' done_world"
    by (simp add: outputs_exist_def path_exists_def done_world_def)
  have b: "''helheim'' \<noteq> []"
    by simp
  have "stdout done_world = []"
    by (simp add: done_world_def)
  then show ?thesis
    using a skip_when_outputs_exist [OF a wf_done_world b, of str_floor no_reader] by simp
qed

section \<open>The glacier name of the solver input file\<close>

text \<open>
  C9. \<open>generate_sif_file\<close> raises the ValueError of its name check exactly when the name is
  none of helheim, jakobshavn and kangerd; it does so for disko; and for each of the
  three names it goes on to open the file, so that it either succeeds or fails in \<open>open\<close>
  (with an OSError, or with the ValueError of a file name that holds a null character).
\<close>

theorem unknown_glacier_iff:
  "(fst (generate_sif_file fmt glacier_name file_name regularization max_iterations w) =
      Inl (ValueError ''Glacier name must be either jakobshavn, helheim or kangerd.'')
    \<longleftrightarrow> glacier_name \<notin> {''helheim'', ''jakobshavn'', ''kangerd''})
   \<and> fst (generate_sif_file fmt ''disko'' file_name regularization max_iterations w) =
      Inl (ValueError ''Glacier name must be either jakobshavn, helheim or kangerd.'')
   \<and> (glacier_name \<in> {''helheim'', ''jakobshavn'', ''kangerd''} \<longrightarrow>
        fst (generate_sif_file fmt glacier_name file_name regularization max_iterations w) = Inr ()
        \<or> (\<exists>p. fst (generate_sif_file fmt glacier_name file_name regularization
                       max_iterations w) = Inl (OSError p))
        \<or> fst (generate_sif_file fmt glacier_name file_name regularization max_iterations w) =
            Inl (ValueError ''embedded null byte''))"
  by (auto simp: generate_sif_file_def thn_def py_open_w_def py_write_def Let_def)

theorem unknown_glacier_iff_witness:
  "fst (generate_sif_file str_floor ''kangerd'' None 10000000000 50 elmer_world) = Inr () \<and>
   fst (generate_sif_file str_floor ''kangerd'' None 10000000000 50 elmer_world) \<noteq>
     Inl (ValueError ''Glacier name must be either jakobshavn, helheim or kangerd.'') \<and>
   fst (generate_sif_file str_floor ''disko'' None 10000000000 50 elmer_world) =
     Inl (ValueError ''Glacier name must be either jakobshavn, helheim or kangerd.'')"
proof -
  have t: "title ''kangerd'' = ''Kangerd''"
    by code_simp
  have "fst (generate_sif_file str_floor ''kangerd'' None 10000000000 50 elmer_world) = Inr ()"
    by (simp add: generate_sif_file_def thn_def py_open_w_def py_write_def t dirname_def
        basename_def elmer_world_def Let_def)
  then show ?thesis
    using unknown_glacier_iff [of str_floor "''kangerd''" None 10000000000 50 elmer_world]
    by simp
qed

text \<open>
  C10. When the name is none of the three, \<open>generate_sif_file\<close> raises before it opens
  anything: the files are exactly as they were.
\<close>

theorem invalid_name_leaves_files:
  assumes "glacier_name \<notin> {''jakobshavn'', ''helheim'', ''kangerd''}"
  shows "generate_sif_file fmt glacier_name file_name regularization max_iterations w =
           (Inl (ValueError ''Glacier name must be either jakobshavn, helheim or kangerd.''), w)"
  using assms by (simp add: generate_sif_file_def)

theorem invalid_name_leaves_files_witness:
  "generate_sif_file str_floor ''disko'' (Some ''UDEM.xy'') 10000000000 50 done_world =
     (Inl (ValueError ''Glacier name must be either jakobshavn, helheim or kangerd.''),
      done_world)"
proof -
  have "''disko'' \<notin> {''jakobshavn'', ''helheim'', ''kangerd''}"
    by simp
  then show ?thesis
    by (rule invalid_name_leaves_files)
qed

end
